theory Spec2Isabelle
  imports Main
begin

section \<open>Contracts (types.ts)\<close>

text \<open>
  Branded strings are strings. \<open>UsdCents\<close> is the "branded integer amount in USD cents";
  amounts, spend counters and epoch milliseconds are modelled as unbounded integers, so
  JavaScript's non-integer and non-finite numbers are outside the model.
\<close>

type_synonym DiscordUserId = string
type_synonym PolymarketAccountId = string
type_synonym MarketId = string
type_synonym UsdCents = int

datatype Outcome = YES | NO

datatype TradeAction = BUY | SELL

datatype MarketStatus = active | closed | paused

text \<open>Of a \<open>Market\<close> the pipeline reads the id, the question and the status only.\<close>

record Market =
  m_id :: MarketId
  m_question :: string
  m_status :: MarketStatus

record UserIdentity =
  discordUserId :: DiscordUserId
  polymarketAccountId :: PolymarketAccountId

text \<open>The \<open>place_bet\<close> member of \<open>AgentOutput\<close>; optional fields are options.\<close>

record TradeIntent =
  userId :: DiscordUserId
  marketId :: MarketId
  outcome :: Outcome
  action :: "TradeAction option"
  amountCents :: UsdCents
  rawText :: "string option"

datatype AgentOutput =
    PlaceBet TradeIntent
  | GetBalance DiscordUserId "string option"
  | GetTradeHistory DiscordUserId "int option" "string option"
  | QueryMarket DiscordUserId "MarketId option" "string option" "string option"

record TradeRequest =
  identity :: UserIdentity
  market :: Market
  req_outcome :: Outcome
  req_action :: TradeAction
  req_amountCents :: UsdCents
  idempotencyKey :: string
  requestedAtMs :: int

datatype TradeErrorCode =
    LIMIT_EXCEEDED_T | INVALID_MARKET_T | MARKET_NOT_ACTIVE_T | INVALID_AMOUNT_T
  | RATE_LIMITED | ABUSE_BLOCKED | UPSTREAM_UNAVAILABLE | INTERNAL_ERROR

text \<open>\<open>TradeResult\<close>: success carries the trade id and execution time, failure the code.\<close>

datatype TradeResult =
    TradeOk string int
  | TradeFailed TradeErrorCode int

section \<open>Output validator (validateAgentOutput.ts)\<close>

definition HOURLY_LIMIT_CENTS :: int where
  "HOURLY_LIMIT_CENTS = 500"

datatype ValidationErrorCode =
    ACCOUNT_NOT_CONNECTED | INVALID_MARKET | MARKET_NOT_ACTIVE | INVALID_AMOUNT | LIMIT_EXCEEDED

datatype ValidationResult = ValidationOk | ValidationFailed ValidationErrorCode

record ValidationContext =
  vc_polymarketAccountId :: "PolymarketAccountId option"
  remainingDailyLimitCents :: int
  spentThisHourCents :: int
  marketLookup :: "string \<Rightarrow> (MarketId \<times> MarketStatus) option"

text \<open>
  The four \<open>place_bet\<close> blocks of the source in their order; any other intent falls through
  to \<open>{ ok: true }\<close>. \<open>Number.isInteger\<close> holds of every amount of the model.
\<close>

definition validateAgentOutput :: "AgentOutput \<Rightarrow> ValidationContext \<Rightarrow> ValidationResult" where
  "validateAgentOutput agentOutput context =
     (case agentOutput of
        PlaceBet b \<Rightarrow>
          (if vc_polymarketAccountId context = None then ValidationFailed ACCOUNT_NOT_CONNECTED
           else
             (case marketLookup context (marketId b) of
                None \<Rightarrow> ValidationFailed INVALID_MARKET
              | Some mk \<Rightarrow>
                  (if snd mk \<noteq> active then ValidationFailed MARKET_NOT_ACTIVE
                   else if amountCents b \<le> 0 then ValidationFailed INVALID_AMOUNT
                   else if amountCents b > remainingDailyLimitCents context
                     then ValidationFailed LIMIT_EXCEEDED
                   else if spentThisHourCents context + amountCents b > HOURLY_LIMIT_CENTS
                     then ValidationFailed LIMIT_EXCEEDED
                   else ValidationOk)))
      | _ \<Rightarrow> ValidationOk)"

section \<open>Request builder (buildTradeRequest.ts)\<close>

definition IDEMPOTENCY_WINDOW_MS :: int where
  "IDEMPOTENCY_WINDOW_MS = 5 * 60 * 1000"

record BuildTradeRequestContext =
  bc_identity :: UserIdentity
  bc_market :: Market
  bc_nowMs :: int

text \<open>
  \<open>Array.prototype.join\<close> turns the two numbers of the key into text: the decimal digits
  of an integer, with a leading minus sign below zero.
\<close>

definition digitChar :: "nat \<Rightarrow> char" where
  "digitChar d = ''0123456789'' ! d"

fun natToDigits :: "nat \<Rightarrow> string" where
  "natToDigits n = (if n < 10 then [digitChar n] else natToDigits (n div 10) @ [digitChar (n mod 10)])"

declare natToDigits.simps [simp del]

definition numberToString :: "int \<Rightarrow> string" where
  "numberToString i = (if i < 0 then CHR ''-'' # natToDigits (nat (- i)) else natToDigits (nat i))"

fun outcomeText :: "Outcome \<Rightarrow> string" where
  "outcomeText YES = ''YES''"
| "outcomeText NO = ''NO''"

fun joinWith :: "string \<Rightarrow> string list \<Rightarrow> string" where
  "joinWith sep [] = []"
| "joinWith sep [x] = x"
| "joinWith sep (x # y # ys) = x @ sep @ joinWith sep (y # ys)"

record IdempotencyKeyInput =
  ik_identity :: UserIdentity
  ik_marketId :: MarketId
  ik_outcome :: Outcome
  ik_amountCents :: UsdCents
  ik_nowMs :: int
  ik_windowMs :: int

definition createDeterministicIdempotencyKey :: "IdempotencyKeyInput \<Rightarrow> string" where
  "createDeterministicIdempotencyKey input =
     (let bucket = ik_nowMs input div ik_windowMs input
      in joinWith '':''
           [discordUserId (ik_identity input),
            polymarketAccountId (ik_identity input),
            ik_marketId input,
            outcomeText (ik_outcome input),
            numberToString (ik_amountCents input),
            numberToString bucket])"

datatype BuildError = NotPlaceBet

definition buildTradeRequest ::
  "AgentOutput \<Rightarrow> BuildTradeRequestContext \<Rightarrow> BuildError + TradeRequest" where
  "buildTradeRequest agentOutput context =
     (case agentOutput of
        PlaceBet b \<Rightarrow>
          Inr \<lparr> identity = bc_identity context,
                market = bc_market context,
                req_outcome = outcome b,
                req_action = (case action b of None \<Rightarrow> BUY | Some a \<Rightarrow> a),
                req_amountCents = amountCents b,
                idempotencyKey =
                  createDeterministicIdempotencyKey
                    \<lparr> ik_identity = bc_identity context,
                      ik_marketId = m_id (bc_market context),
                      ik_outcome = outcome b,
                      ik_amountCents = amountCents b,
                      ik_nowMs = bc_nowMs context,
                      ik_windowMs = IDEMPOTENCY_WINDOW_MS \<rparr>,
                requestedAtMs = bc_nowMs context \<rparr>
      | _ \<Rightarrow> Inl NotPlaceBet)"

section \<open>Spend ledger (limits.ts, in-memory store)\<close>

text \<open>
  The store in use when no Redis client is configured: a map from user to a map from UTC
  day to cents. The day key \<open>YYYY-MM-DD\<close> of an instant is modelled by the number of the
  day since the epoch, which it names one to one. Every ledger function reads the clock;
  the reading is the argument \<open>now\<close>, one per synchronous call.
\<close>

definition DAILY_LIMIT_CENTS :: int where
  "DAILY_LIMIT_CENTS = 500"

definition OWNER_DISCORD_ID :: string where
  "OWNER_DISCORD_ID = ''1161631744768884746''"

definition isOwnerExempt :: "DiscordUserId \<Rightarrow> bool" where
  "isOwnerExempt u = (u = OWNER_DISCORD_ID)"

type_synonym DayKey = int
type_synonym SpendLedger = "DiscordUserId \<Rightarrow> (DayKey \<Rightarrow> int option) option"

definition utcDateKey :: "int \<Rightarrow> DayKey" where
  "utcDateKey now = now div 86400000"

definition evictStaleEntries :: "int \<Rightarrow> (DayKey \<Rightarrow> int option) \<Rightarrow> (DayKey \<Rightarrow> int option)" where
  "evictStaleEntries now userMap =
     (let today = utcDateKey now; yesterday = utcDateKey (now - 86400000)
      in (\<lambda>key. if key \<noteq> today \<and> key \<noteq> yesterday then None else userMap key))"

definition memGetSpent :: "int \<Rightarrow> DiscordUserId \<Rightarrow> SpendLedger \<Rightarrow> int \<times> SpendLedger" where
  "memGetSpent now u ledger =
     (let dayKey = utcDateKey now
      in case ledger u of
           None \<Rightarrow> (0, ledger)
         | Some userMap \<Rightarrow>
             (let evicted = evictStaleEntries now userMap
              in ((case evicted dayKey of None \<Rightarrow> 0 | Some v \<Rightarrow> v), ledger(u \<mapsto> evicted))))"

definition memRecordSpend :: "int \<Rightarrow> DiscordUserId \<Rightarrow> int \<Rightarrow> SpendLedger \<Rightarrow> SpendLedger" where
  "memRecordSpend now u amount ledger =
     (let dayKey = utcDateKey now;
          userMap = (case ledger u of None \<Rightarrow> Map.empty | Some m \<Rightarrow> m);
          current = (case userMap dayKey of None \<Rightarrow> 0 | Some v \<Rightarrow> v)
      in ledger(u \<mapsto> userMap(dayKey \<mapsto> current + amount)))"

definition getSpentToday :: "int \<Rightarrow> DiscordUserId \<Rightarrow> SpendLedger \<Rightarrow> int \<times> SpendLedger" where
  "getSpentToday now u ledger = memGetSpent now u ledger"

definition getRemainingToday :: "int \<Rightarrow> DiscordUserId \<Rightarrow> SpendLedger \<Rightarrow> int \<times> SpendLedger" where
  "getRemainingToday now u ledger =
     (let (spent, ledger') = getSpentToday now u ledger
      in (max 0 (DAILY_LIMIT_CENTS - spent), ledger'))"

definition canSpend :: "int \<Rightarrow> DiscordUserId \<Rightarrow> int \<Rightarrow> SpendLedger \<Rightarrow> bool \<times> SpendLedger" where
  "canSpend now u amount ledger =
     (let (spent, ledger') = getSpentToday now u ledger
      in (spent + amount \<le> DAILY_LIMIT_CENTS, ledger'))"

definition recordSpend :: "int \<Rightarrow> DiscordUserId \<Rightarrow> int \<Rightarrow> SpendLedger \<Rightarrow> SpendLedger" where
  "recordSpend now u amount ledger = memRecordSpend now u amount ledger"

definition trySpend :: "int \<Rightarrow> DiscordUserId \<Rightarrow> int \<Rightarrow> SpendLedger \<Rightarrow> bool \<times> SpendLedger" where
  "trySpend now u amount ledger =
     (let (spent, ledger') = memGetSpent now u ledger
      in if spent + amount > DAILY_LIMIT_CENTS then (False, ledger')
         else (True, memRecordSpend now u amount ledger'))"

text \<open>A run of \<open>trySpend\<close> calls by one user, each with its clock reading and amount.\<close>

fun trySpendAll :: "DiscordUserId \<Rightarrow> (int \<times> int) list \<Rightarrow> SpendLedger \<Rightarrow> bool list \<times> SpendLedger" where
  "trySpendAll u [] ledger = ([], ledger)"
| "trySpendAll u ((now, amount) # calls) ledger =
     (let (ok, ledger') = trySpend now u amount ledger;
          (oks, ledger'') = trySpendAll u calls ledger'
      in (ok # oks, ledger''))"

text \<open>The counter of a user's day bucket, read without touching the ledger.\<close>

definition spentOn :: "DayKey \<Rightarrow> DiscordUserId \<Rightarrow> SpendLedger \<Rightarrow> int" where
  "spentOn d u ledger =
     (case ledger u of None \<Rightarrow> 0 | Some userMap \<Rightarrow> (case userMap d of None \<Rightarrow> 0 | Some v \<Rightarrow> v))"

text \<open>The amounts of the calls that succeeded.\<close>

fun accepted :: "(int \<times> int) list \<Rightarrow> bool list \<Rightarrow> int list" where
  "accepted ((now, amount) # calls) (ok # oks) = (if ok then amount # accepted calls oks else accepted calls oks)"
| "accepted _ _ = []"

section \<open>Regular expressions of the classifier and the router\<close>

text \<open>
  The patterns are JavaScript regular expressions, used through \<open>test\<close> and \<open>match\<close>.
  They are kept as syntax trees and run by a backtracking matcher that returns, for a
  cursor (the character before it and the text after it), every cursor a match can end
  at, in the engine's order of preference (greedy quantifiers first, alternatives left to
  right). Messages are strings of 8-bit characters; the patterns name ASCII characters
  only, and case folding and the classes \<open>\s\<close>, \<open>\d\<close>, \<open>\w\<close> are those of ASCII.
\<close>

datatype regex =
    REps
  | RLit char
  | RDigit
  | RSpace
  | RWord
  | RAny
  | RHex
  | RBoundary
  | RStart
  | RSeq regex regex
  | RAlt regex regex
  | RStar regex
  | RPlus regex
  | ROpt regex

definition isDigitChar :: "char \<Rightarrow> bool" where
  "isDigitChar c = (c \<in> set ''0123456789'')"

definition isSpaceChar :: "char \<Rightarrow> bool" where
  "isSpaceChar c = (c \<in> set [CHR '' '', CHR 0x09, CHR 0x0A, CHR 0x0B, CHR 0x0C, CHR 0x0D])"

definition isLineTerminator :: "char \<Rightarrow> bool" where
  "isLineTerminator c = (c \<in> set [CHR 0x0A, CHR 0x0D])"

definition isHexChar :: "char \<Rightarrow> bool" where
  "isHexChar c = (c \<in> set ''0123456789abcdefABCDEF'')"

definition lowerChar :: "char \<Rightarrow> char" where
  "lowerChar c =
     (case map_of (zip ''ABCDEFGHIJKLMNOPQRSTUVWXYZ'' ''abcdefghijklmnopqrstuvwxyz'') c of
        None \<Rightarrow> c | Some l \<Rightarrow> l)"

definition isWordChar :: "char \<Rightarrow> bool" where
  "isWordChar c = (lowerChar c \<in> set ''abcdefghijklmnopqrstuvwxyz0123456789_'')"

text \<open>\<open>String.prototype.trim\<close> and \<open>toLowerCase\<close>.\<close>

definition trimString :: "string \<Rightarrow> string" where
  "trimString s = rev (dropWhile isSpaceChar (rev (dropWhile isSpaceChar s)))"

definition toLowerCase :: "string \<Rightarrow> string" where
  "toLowerCase s = map lowerChar s"

type_synonym cursor = "char option \<times> string"

fun stepIf :: "(char \<Rightarrow> bool) \<Rightarrow> cursor \<Rightarrow> cursor list" where
  "stepIf P (prev, []) = []"
| "stepIf P (prev, c # cs) = (if P c then [(Some c, cs)] else [])"

fun atBoundary :: "cursor \<Rightarrow> bool" where
  "atBoundary (None, []) = False"
| "atBoundary (None, c # cs) = isWordChar c"
| "atBoundary (Some p, []) = isWordChar p"
| "atBoundary (Some p, c # cs) = (isWordChar p \<noteq> isWordChar c)"

text \<open>
  Iteration of a starred pattern: an iteration must consume input, so the length of the
  remaining text bounds the number of iterations.
\<close>

fun repeatFrom :: "(cursor \<Rightarrow> cursor list) \<Rightarrow> nat \<Rightarrow> cursor \<Rightarrow> cursor list" where
  "repeatFrom f 0 cur = [cur]"
| "repeatFrom f (Suc n) cur =
     concat (map (repeatFrom f n) (filter (\<lambda>cur'. length (snd cur') < length (snd cur)) (f cur)))
       @ [cur]"

fun matchAt :: "bool \<Rightarrow> regex \<Rightarrow> cursor \<Rightarrow> cursor list" where
  "matchAt ci REps cur = [cur]"
| "matchAt ci (RLit a) cur = stepIf (\<lambda>c. if ci then lowerChar c = lowerChar a else c = a) cur"
| "matchAt ci RDigit cur = stepIf isDigitChar cur"
| "matchAt ci RSpace cur = stepIf isSpaceChar cur"
| "matchAt ci RWord cur = stepIf isWordChar cur"
| "matchAt ci RAny cur = stepIf (\<lambda>c. \<not> isLineTerminator c) cur"
| "matchAt ci RHex cur = stepIf isHexChar cur"
| "matchAt ci RBoundary cur = (if atBoundary cur then [cur] else [])"
| "matchAt ci RStart cur = (if fst cur = None then [cur] else [])"
| "matchAt ci (RSeq r s) cur = concat (map (matchAt ci s) (matchAt ci r cur))"
| "matchAt ci (RAlt r s) cur = matchAt ci r cur @ matchAt ci s cur"
| "matchAt ci (RStar r) cur = repeatFrom (matchAt ci r) (length (snd cur)) cur"
| "matchAt ci (RPlus r) cur =
     concat (map (\<lambda>cur'. repeatFrom (matchAt ci r) (length (snd cur')) cur') (matchAt ci r cur))"
| "matchAt ci (ROpt r) cur = matchAt ci r cur @ [cur]"

fun cursors :: "cursor \<Rightarrow> cursor list" where
  "cursors (prev, []) = [(prev, [])]"
| "cursors (prev, c # cs) = (prev, c # cs) # cursors (Some c, cs)"

text \<open>\<open>pattern.test(s)\<close>: a match starts at some position; the flag is \<open>i\<close>.\<close>

definition regexTest :: "bool \<Rightarrow> regex \<Rightarrow> string \<Rightarrow> bool" where
  "regexTest ci r s = list_ex (\<lambda>cur. matchAt ci r cur \<noteq> []) (cursors (None, s))"

text \<open>
  \<open>s.match(pattern)[1]\<close> for a pattern of the shape \<open>pre(group)post\<close>: the text of the
  group in the first match, leftmost start first and the engine's preference within it.
\<close>

definition firstCapture :: "regex \<Rightarrow> regex \<Rightarrow> regex \<Rightarrow> string \<Rightarrow> string option" where
  "firstCapture pre grp post s =
     (case concat (map (\<lambda>cur.
             concat (map (\<lambda>c0.
               concat (map (\<lambda>c1.
                 map (\<lambda>c2. take (length (snd c0) - length (snd c1)) (snd c0))
                   (matchAt False post c1))
               (matchAt False grp c0)))
             (matchAt False pre cur)))
           (cursors (None, s))) of
        [] \<Rightarrow> None
      | t # _ \<Rightarrow> Some t)"

fun rstr :: "string \<Rightarrow> regex" where
  "rstr [] = REps"
| "rstr [c] = RLit c"
| "rstr (c # cs) = RSeq (RLit c) (rstr cs)"

fun ralt :: "regex list \<Rightarrow> regex" where
  "ralt [] = REps"
| "ralt [r] = r"
| "ralt (r # rs) = RAlt r (ralt rs)"

fun rseq :: "regex list \<Rightarrow> regex" where
  "rseq [] = REps"
| "rseq [r] = r"
| "rseq (r # rs) = RSeq r (rseq rs)"

text \<open>\<open>\b(w1|w2|...)\b\<close>\<close>

definition wordOf :: "string list \<Rightarrow> regex" where
  "wordOf ws = rseq [RBoundary, ralt (map rstr ws), RBoundary]"

text \<open>\<open>\d+(?:\.\d{1,2})?\<close> and \<open>(dollars?|usd|bucks?)\<close>\<close>

definition decimalAmount :: regex where
  "decimalAmount = RSeq (RPlus RDigit) (ROpt (rseq [RLit CHR ''.'', RDigit, ROpt RDigit]))"

definition currencyWord :: regex where
  "currencyWord =
     ralt [RSeq (rstr ''dollar'') (ROpt (RLit CHR ''s'')), rstr ''usd'',
           RSeq (rstr ''buck'') (ROpt (RLit CHR ''s''))]"

section \<open>Intent classifier (classifyMessageIntent.ts)\<close>

datatype MessageIntentPipeline = READ | WRITE

definition WRITE_ACTION_VERB_PATTERN :: regex where
  "WRITE_ACTION_VERB_PATTERN = wordOf [''bet'', ''place'', ''buy'', ''sell'', ''trade'']"

definition MONEY_REFERENCE_PATTERN :: regex where
  "MONEY_REFERENCE_PATTERN =
     RAlt (rseq [RLit CHR ''$'', RStar RSpace, decimalAmount])
          (rseq [RBoundary, decimalAmount, RStar RSpace, currencyWord, RBoundary])"

definition QUESTION_PATTERN :: regex where
  "QUESTION_PATTERN =
     RAlt (RLit CHR ''?'')
          (rseq [RStart, RStar RSpace,
                 ralt (map rstr [''what'', ''why'', ''how'', ''when'', ''where'', ''who'', ''which'',
                   ''can'', ''could'', ''would'', ''should'', ''is'', ''are'', ''do'', ''does'', ''did'']),
                 RBoundary])"

definition tradesWord :: regex where
  "tradesWord = RSeq (rstr ''trade'') (ROpt (RLit CHR ''s''))"

definition ACCOUNT_WRITE_PATTERN :: regex where
  "ACCOUNT_WRITE_PATTERN =
     rseq [RBoundary,
           ralt [rstr ''balance'', rstr ''portfolio'',
                 RSeq (rstr ''position'') (ROpt (RLit CHR ''s'')),
                 rseq [rstr ''trade'', RPlus RSpace, rstr ''history''],
                 rstr ''history'',
                 rseq [rstr ''connect'', RPlus RSpace, rstr ''account''],
                 rstr ''verify'', rstr ''disconnect'', rstr ''status'',
                 rseq [rstr ''linked'', RPlus RSpace, rstr ''wallet''],
                 rseq [rstr ''recent'', RPlus RSpace, tradesWord],
                 rseq [rstr ''past'', RPlus RSpace, RPlus RWord, RPlus RSpace, tradesWord],
                 rseq [rstr ''last'', RPlus RSpace, RPlus RWord, RPlus RSpace, tradesWord]],
           RBoundary]"

definition classifyMessageIntent :: "string \<Rightarrow> MessageIntentPipeline" where
  "classifyMessageIntent message =
     (let normalized = trimString message
      in if length normalized = 0 then READ
         else if regexTest True ACCOUNT_WRITE_PATTERN normalized then WRITE
         else if regexTest True QUESTION_PATTERN normalized then READ
         else
           (let hasWriteActionVerb = regexTest True WRITE_ACTION_VERB_PATTERN normalized;
                hasMonetaryReference = regexTest True MONEY_REFERENCE_PATTERN normalized
            in if hasWriteActionVerb \<and> hasMonetaryReference then WRITE else READ))"

section \<open>Message router (DiscordMessageRouter.ts)\<close>

subsection \<open>State\<close>

text \<open>
  The closure stored with a pending trade is kept by the variables it captures: the built
  request, the action the spend check used, the user, the amount, and the market question
  and outcome of the reply.
\<close>

record Executor =
  ex_tradeRequest :: TradeRequest
  ex_action :: TradeAction
  ex_discordUserId :: DiscordUserId
  ex_amountCentsNum :: int
  ex_marketQuestion :: string
  ex_outcome :: Outcome

record PendingTrade =
  execute :: Executor
  expiresAtMs :: int

datatype LedgerCall =
    CanSpend DiscordUserId int
  | GetSpentToday DiscordUserId
  | GetRemainingToday DiscordUserId
  | RecordSpend DiscordUserId int

text \<open>
  The mutable state: the router's map of pending trades and the module-level spend ledger.
  Three logs are kept beside them to state what was invoked: the requests handed to
  \<open>trader.placeTrade\<close>, the requests built by the router, and the router's calls into the
  ledger, each in order.
\<close>

record World =
  pendingTrades :: "string \<Rightarrow> PendingTrade option"
  spendLedger :: SpendLedger
  placedTrades :: "TradeRequest list"
  builtRequests :: "TradeRequest list"
  ledgerCalls :: "LedgerCall list"

subsection \<open>Replies\<close>

text \<open>
  Fixed replies are kept word for word. A reply rendered from numbers or external data is
  kept by its template and the values rendered into it.
\<close>

datatype TextContent =
    Fixed string
  | DailyLimitReached string string
  | WalletReport
  | OwnerWallet int
  | UserWallet int int int
  | ActivityReport
  | TradesReport
  | ReadReply string

datatype RouteResult =
    Text TextContent
  | Confirm string string Outcome TradeAction string

text \<open>The text of an executed trade is a function of the trade result and the captured context.\<close>

datatype ResultMessage = TradeResultMessage TradeResult string Outcome TradeAction int

definition formatTradeResultMessage ::
  "TradeResult \<Rightarrow> string \<Rightarrow> Outcome \<Rightarrow> TradeAction \<Rightarrow> int \<Rightarrow> ResultMessage" where
  "formatTradeResultMessage result marketQuestion oc act cents =
     TradeResultMessage result marketQuestion oc act cents"

text \<open>\<open>(cents / 100).toFixed(2)\<close> of an integer number of cents.\<close>

definition toFixed2 :: "int \<Rightarrow> string" where
  "toFixed2 cents =
     (let a = nat \<bar>cents\<bar>
      in (if cents < 0 then ''-'' else '''') @ natToDigits (a div 100) @ ''.''
           @ [digitChar ((a mod 100) div 10), digitChar (a mod 10)])"

fun mapValidationErrorToUserMessage :: "ValidationErrorCode \<Rightarrow> string" where
  "mapValidationErrorToUserMessage ACCOUNT_NOT_CONNECTED =
     ''Trading is not available right now. Please contact an admin.''"
| "mapValidationErrorToUserMessage INVALID_MARKET =
     ''That market could not be found. Please check the market and try again.''"
| "mapValidationErrorToUserMessage MARKET_NOT_ACTIVE =
     ''That market is not currently active for trading.''"
| "mapValidationErrorToUserMessage INVALID_AMOUNT =
     ''The trade amount is invalid. Please provide a positive whole-number amount in cents.''"
| "mapValidationErrorToUserMessage LIMIT_EXCEEDED =
     ''This trade exceeds your current spending limit window.''"

definition parseFailureReply :: string where
  "parseFailureReply =
     ''I could not confidently parse that request. Please try again with a clearer command.''"

definition notATradeReply :: string where
  "notATradeReply =
     ''I could not confirm a trade placement request. Please restate the trade with explicit action and amount.''"

definition somethingWentWrongReply :: string where
  "somethingWentWrongReply =
     ''Something went wrong while handling your request. Please try again.''"

subsection \<open>The outside world\<close>

text \<open>An awaited call into a collaborator returns or throws.\<close>

datatype 'a attempt = Threw | Returned 'a

text \<open>
  What the collaborators answer while one message is routed: the clock readings, the fresh
  confirmation id, the intent parser's model, the market services, the validation context
  and the account services. \<open>re_modelOutput\<close> is the model's reply once parsed as JSON and
  narrowed by the shape check (\<open>None\<close>: empty, malformed, \<open>null\<close> or ill-shaped).
  \<open>re_timedEvent\<close> is what the events API yields for the time-window slug;
  \<open>re_searchPick\<close> is the market ranked first among the text-search results.
\<close>

record RouteEnv =
  re_clock :: int
  re_storedAt :: int
  re_nowMs :: int
  re_uuid :: string
  re_hasKeys :: bool
  re_modelOutput :: "AgentOutput option"
  re_getMarketById :: "MarketId \<Rightarrow> Market option attempt"
  re_timedEvent :: "(Market \<times> string) option"
  re_searchPick :: "Market option attempt"
  re_buildValidationContext :: "ValidationContext attempt"
  re_proxyWallet :: "string option"
  re_getBalance :: "int attempt"
  re_activities :: nat
  re_getRecentTrades :: "nat attempt"
  re_handleRead :: "string attempt"

text \<open>
  What the outside answers while one confirmation is executed: the clock at the expiry
  check, the trader's result, and the clock when the spend is recorded. The trader wired
  in (\<open>UserAccountTrader.placeTrade\<close>) catches every error of the gateway and returns a
  failed result, so placing a trade does not throw.
\<close>

record ExecEnv =
  ee_clock :: int
  ee_placeTrade :: TradeResult
  ee_recordClock :: int

subsection \<open>The router's calls into the ledger\<close>

definition callCanSpend :: "int \<Rightarrow> DiscordUserId \<Rightarrow> int \<Rightarrow> World \<Rightarrow> bool \<times> World" where
  "callCanSpend now u amount w =
     (let (ok, ledger') = canSpend now u amount (spendLedger w)
      in (ok, w\<lparr> spendLedger := ledger', ledgerCalls := ledgerCalls w @ [CanSpend u amount] \<rparr>))"

definition callGetSpentToday :: "int \<Rightarrow> DiscordUserId \<Rightarrow> World \<Rightarrow> int \<times> World" where
  "callGetSpentToday now u w =
     (let (spent, ledger') = getSpentToday now u (spendLedger w)
      in (spent, w\<lparr> spendLedger := ledger', ledgerCalls := ledgerCalls w @ [GetSpentToday u] \<rparr>))"

definition callGetRemainingToday :: "int \<Rightarrow> DiscordUserId \<Rightarrow> World \<Rightarrow> int \<times> World" where
  "callGetRemainingToday now u w =
     (let (remaining, ledger') = getRemainingToday now u (spendLedger w)
      in (remaining,
          w\<lparr> spendLedger := ledger', ledgerCalls := ledgerCalls w @ [GetRemainingToday u] \<rparr>))"

definition callRecordSpend :: "int \<Rightarrow> DiscordUserId \<Rightarrow> int \<Rightarrow> World \<Rightarrow> World" where
  "callRecordSpend now u amount w =
     w\<lparr> spendLedger := recordSpend now u amount (spendLedger w),
        ledgerCalls := ledgerCalls w @ [RecordSpend u amount] \<rparr>"

subsection \<open>Pending trades\<close>

text \<open>The closure of a pending trade, run against the trader's answer.\<close>

definition runExecutor :: "ExecEnv \<Rightarrow> Executor \<Rightarrow> World \<Rightarrow> ResultMessage \<times> World" where
  "runExecutor env ex w =
     (let w1 = w\<lparr> placedTrades := placedTrades w @ [ex_tradeRequest ex] \<rparr>;
          tradeResult = ee_placeTrade env;
          w2 = (case tradeResult of
                  TradeOk tid at \<Rightarrow>
                    (if ex_action ex = BUY
                     then callRecordSpend (ee_recordClock env) (ex_discordUserId ex)
                            (ex_amountCentsNum ex) w1
                     else w1)
                | TradeFailed code at \<Rightarrow> w1)
      in (formatTradeResultMessage tradeResult (ex_marketQuestion ex) (ex_outcome ex)
            (ex_action ex) (ex_amountCentsNum ex), w2))"

definition executePendingTrade :: "ExecEnv \<Rightarrow> string \<Rightarrow> World \<Rightarrow> ResultMessage option \<times> World" where
  "executePendingTrade env confirmId w =
     (case pendingTrades w confirmId of
        None \<Rightarrow> (None, w)
      | Some pending \<Rightarrow>
          (let w1 = w\<lparr> pendingTrades := (pendingTrades w)(confirmId := None) \<rparr>
           in if expiresAtMs pending < ee_clock env then (None, w1)
              else (let (msg, w2) = runExecutor env (execute pending) w1 in (Some msg, w2))))"

definition cancelPendingTrade :: "string \<Rightarrow> World \<Rightarrow> bool \<times> World" where
  "cancelPendingTrade confirmId w =
     (if pendingTrades w confirmId = None then (False, w)
      else (True, w\<lparr> pendingTrades := (pendingTrades w)(confirmId := None) \<rparr>))"

definition storePendingTrade :: "int \<Rightarrow> string \<Rightarrow> Executor \<Rightarrow> World \<Rightarrow> string \<times> World" where
  "storePendingTrade now uuid ex w =
     (let confirmId = uuid
      in (confirmId,
          w\<lparr> pendingTrades := (pendingTrades w)
                (confirmId \<mapsto> \<lparr> execute = ex, expiresAtMs = now + 5 * 60 * 1000 \<rparr>) \<rparr>))"

text \<open>The purge the constructor schedules every two minutes.\<close>

definition purgeExpired :: "int \<Rightarrow> World \<Rightarrow> World" where
  "purgeExpired now w =
     w\<lparr> pendingTrades :=
          (\<lambda>cid. case pendingTrades w cid of
                   None \<Rightarrow> None
                 | Some p \<Rightarrow> (if expiresAtMs p < now then None else Some p)) \<rparr>"

subsection \<open>Patterns of the router\<close>

text \<open>\<open>isDeterministicWriteMessage\<close>: matched against the trimmed, lower-cased message.\<close>

definition accountScopedPattern :: regex where
  "accountScopedPattern =
     rseq [RBoundary,
           ralt [rstr ''balance'', rstr ''portfolio'',
                 RSeq (rstr ''position'') (ROpt (RLit CHR ''s'')),
                 rseq [rstr ''trade'', RPlus RSpace, rstr ''history''],
                 rstr ''history'',
                 rseq [rstr ''recent'', RPlus RSpace, tradesWord],
                 rseq [rstr ''past'', RPlus RSpace, RPlus RWord, RPlus RSpace, tradesWord],
                 rseq [rstr ''last'', RPlus RSpace, RPlus RWord, RPlus RSpace, tradesWord],
                 rseq [rstr ''connect'', RPlus RSpace, rstr ''account''],
                 rstr ''verify'', rstr ''disconnect'', rstr ''status'',
                 rseq [rstr ''linked'', RPlus RSpace, rstr ''wallet'']],
           RBoundary]"

definition tradeVerbPattern :: regex where
  "tradeVerbPattern =
     wordOf [''bet'', ''place'', ''buy'', ''sell'', ''exit'', ''close'', ''trade'', ''market'']"

definition isDeterministicWriteMessage :: "string \<Rightarrow> bool" where
  "isDeterministicWriteMessage message =
     (let normalized = toLowerCase (trimString message)
      in if length normalized = 0 then False
         else if regexTest False accountScopedPattern normalized then True
         else
           (let hasTradeVerb = regexTest False tradeVerbPattern normalized;
                hasAmount = regexTest False MONEY_REFERENCE_PATTERN normalized
            in hasTradeVerb \<and> hasAmount))"

text \<open>
  The fallback's trade-history pattern, with the blanks it has in the source:
  \<open>/\b(past | last | recent) \b.*\btrades ?\b |\btrade\s + history\b /\<close>.
\<close>

definition fallbackHistoryPattern :: regex where
  "fallbackHistoryPattern =
     RAlt
       (rseq [RBoundary, ralt [rstr ''past '', rstr '' last '', rstr '' recent''],
              RLit CHR '' '', RBoundary, RStar RAny, RBoundary, rstr ''trades'',
              ROpt (RLit CHR '' ''), RBoundary, RLit CHR '' ''])
       (rseq [RBoundary, rstr ''trade'', RSpace, RPlus (RLit CHR '' ''), RLit CHR '' '',
              rstr ''history'', RBoundary, RLit CHR '' ''])"

definition sellPattern :: regex where
  "sellPattern = wordOf [''sell'', ''exit'', ''close'']"

definition yesPattern :: regex where
  "yesPattern = wordOf [''up'', ''yes'', ''long'']"

definition noPattern :: regex where
  "noPattern = wordOf [''down'', ''no'', ''short'']"

definition fallbackKeywordPattern :: regex where
  "fallbackKeywordPattern =
     wordOf [''bet'', ''buy'', ''sell'', ''trade'', ''market'', ''exit'', ''close'']"

definition bitcoinPattern :: regex where
  "bitcoinPattern = wordOf [''bitcoin'', ''btc'']"

definition ethereumPattern :: regex where
  "ethereumPattern = wordOf [''ethereum'', ''eth'']"

definition solanaPattern :: regex where
  "solanaPattern = wordOf [''solana'', ''sol'']"

definition xrpPattern :: regex where
  "xrpPattern = wordOf [''xrp'', ''ripple'']"

text \<open>\<open>/\b(n|word)\s*(u1|u2|...)/i\<close>: a count, blanks, a unit; no boundary after the unit.\<close>

definition spanPattern :: "string list \<Rightarrow> string list \<Rightarrow> regex" where
  "spanPattern counts units =
     rseq [RBoundary, ralt (map rstr counts), RStar RSpace, ralt (map rstr units)]"

definition timedKeywordPattern :: regex where
  "timedKeywordPattern = wordOf [''up'', ''down'', ''bet'', ''market'', ''buy'', ''sell'']"

definition walletAddressPattern :: regex where
  "walletAddressPattern = RSeq (rstr ''0x'') (rseq (replicate 40 RHex))"

text \<open>
  \<open>Math.round(Number(text) * 100)\<close> for a text that matches \<open>\d+(\.\d{1,2})?\<close>: the
  integer part times one hundred plus the one or two decimals.
\<close>

definition digitValue :: "char \<Rightarrow> nat" where
  "digitValue c = length (takeWhile (\<lambda>d. d \<noteq> c) ''0123456789'')"

definition digitsToNat :: "string \<Rightarrow> nat" where
  "digitsToNat ds = foldl (\<lambda>a c. 10 * a + digitValue c) 0 ds"

definition centsOfDecimal :: "string \<Rightarrow> int" where
  "centsOfDecimal t =
     (let whole = takeWhile isDigitChar t;
          decimals = drop (Suc (length whole)) t
      in int (100 * digitsToNat whole
              + (case decimals of
                   [] \<Rightarrow> 0
                 | [d] \<Rightarrow> 10 * digitValue d
                 | d # e # _ \<Rightarrow> 10 * digitValue d + digitValue e)))"

subsection \<open>Intent parser boundary (intentParser.ts)\<close>

fun agentUserId :: "AgentOutput \<Rightarrow> DiscordUserId" where
  "agentUserId (PlaceBet b) = userId b"
| "agentUserId (GetBalance u r) = u"
| "agentUserId (GetTradeHistory u l r) = u"
| "agentUserId (QueryMarket u m q r) = u"

fun toBrandedAgentOutput :: "AgentOutput \<Rightarrow> AgentOutput" where
  "toBrandedAgentOutput (PlaceBet b) =
     PlaceBet (b\<lparr> action := Some (case action b of None \<Rightarrow> BUY | Some a \<Rightarrow> a) \<rparr>)"
| "toBrandedAgentOutput (GetBalance u r) = GetBalance u r"
| "toBrandedAgentOutput (GetTradeHistory u l r) = GetTradeHistory u l r"
| "toBrandedAgentOutput (QueryMarket u m q r) =
     QueryMarket u (case m of None \<Rightarrow> None | Some x \<Rightarrow> (if x = [] then None else Some x)) q r"

definition parseIntent :: "RouteEnv \<Rightarrow> string \<Rightarrow> DiscordUserId \<Rightarrow> AgentOutput option" where
  "parseIntent env rawMessage u =
     (if length (trimString rawMessage) = 0 then None
      else if \<not> re_hasKeys env then None
      else
        (case re_modelOutput env of
           None \<Rightarrow> None
         | Some parsed \<Rightarrow>
             (if agentUserId parsed \<noteq> u then None else Some (toBrandedAgentOutput parsed))))"

subsection \<open>Routing\<close>

definition tryResolveTimedUpDownMarket :: "RouteEnv \<Rightarrow> string \<Rightarrow> (Market \<times> string) option" where
  "tryResolveTimedUpDownMarket env message =
     (let normalized = toLowerCase (trimString message);
          wantsBitcoin = regexTest False bitcoinPattern normalized;
          wantsEthereum = regexTest False ethereumPattern normalized;
          wantsSolana = regexTest False solanaPattern normalized;
          wantsXrp = regexTest False xrpPattern normalized
      in if \<not> (wantsBitcoin \<or> wantsEthereum \<or> wantsSolana \<or> wantsXrp) then None
         else
           (let wantsFifteen =
                  regexTest True (spanPattern [''15'', ''fifteen''] [''m'', ''min'', ''minute'']) normalized;
                wantsFive =
                  regexTest True (spanPattern [''5'', ''five''] [''m'', ''min'', ''minute'']) normalized;
                wantsOneHour =
                  (regexTest True (spanPattern [''1'', ''one''] [''h'', ''hr'', ''hour'']) normalized
                   \<or> regexTest True (spanPattern [''60''] [''m'', ''min'']) normalized);
                wantsFourHour =
                  regexTest True (spanPattern [''4'', ''four''] [''h'', ''hr'', ''hour'']) normalized;
                wantsOneDay =
                  (regexTest True (spanPattern [''1'', ''one''] [''d'', ''day'']) normalized
                   \<or> regexTest True (spanPattern [''24''] [''h'', ''hr'', ''hour'']) normalized)
            in if \<not> (wantsFifteen \<or> wantsFive \<or> wantsOneHour \<or> wantsFourHour \<or> wantsOneDay)
               then None
               else if \<not> regexTest False timedKeywordPattern normalized then None
               else re_timedEvent env))"

text \<open>
  The tail shared in shape by both trade paths: validate against the context with the
  market lookup overridden at the chosen market, build the request, store the pending
  trade and answer with the confirmation prompt.
\<close>

definition confirmTrade ::
  "RouteEnv \<Rightarrow> DiscordUserId \<Rightarrow> TradeIntent \<Rightarrow> TradeAction \<Rightarrow> Market option \<Rightarrow> World
     \<Rightarrow> RouteResult attempt \<times> World" where
  "confirmTrade env u intent act chosenMarket w =
     (case re_buildValidationContext env of
        Threw \<Rightarrow> (Threw, w)
      | Returned baseValidationContext \<Rightarrow>
          (let validationContext = baseValidationContext
                 \<lparr> marketLookup :=
                     (\<lambda>mid. if mid \<noteq> marketId intent
                            then marketLookup baseValidationContext mid
                            else (case chosenMarket of
                                    None \<Rightarrow> None
                                  | Some m \<Rightarrow> Some (m_id m, m_status m))) \<rparr>
           in case validateAgentOutput (PlaceBet intent) validationContext of
                ValidationFailed code \<Rightarrow>
                  (Returned (Text (Fixed (mapValidationErrorToUserMessage code))), w)
              | ValidationOk \<Rightarrow>
                  (case chosenMarket of
                     None \<Rightarrow>
                       (Returned (Text (Fixed (mapValidationErrorToUserMessage INVALID_MARKET))), w)
                   | Some m \<Rightarrow>
                       (let ident = \<lparr> discordUserId = u,
                              polymarketAccountId =
                                (case vc_polymarketAccountId validationContext of
                                   None \<Rightarrow> [] | Some a \<Rightarrow> a) \<rparr>
                        in case buildTradeRequest (PlaceBet intent)
                                  \<lparr> bc_identity = ident, bc_market = m, bc_nowMs = re_nowMs env \<rparr> of
                             Inl e \<Rightarrow> (Threw, w)
                           | Inr tradeRequest \<Rightarrow>
                               (let w1 = w\<lparr> builtRequests := builtRequests w @ [tradeRequest] \<rparr>;
                                    amountCentsNum = amountCents intent;
                                    (confirmId, w2) =
                                      storePendingTrade (re_storedAt env) (re_uuid env)
                                        \<lparr> ex_tradeRequest = tradeRequest,
                                          ex_action = act,
                                          ex_discordUserId = u,
                                          ex_amountCentsNum = amountCentsNum,
                                          ex_marketQuestion = m_question m,
                                          ex_outcome = outcome intent \<rparr> w1
                                in (Returned (Confirm confirmId (m_question m) (outcome intent) act
                                       (toFixed2 amountCentsNum)), w2))))))"

text \<open>
  The daily-limit gate of both trade paths: only a buy by a user other than the owner
  asks the ledger.
\<close>

definition spendGate ::
  "RouteEnv \<Rightarrow> DiscordUserId \<Rightarrow> TradeAction \<Rightarrow> int \<Rightarrow> World \<Rightarrow> RouteResult option \<times> World" where
  "spendGate env u act amount w =
     (if act = BUY \<and> \<not> isOwnerExempt u
      then (let (ok, w1) = callCanSpend (re_clock env) u amount w
            in if \<not> ok
               then (let (remaining, w2) = callGetRemainingToday (re_clock env) u w1
                     in (Some (Text (DailyLimitReached (toFixed2 remaining)
                                  (toFixed2 DAILY_LIMIT_CENTS))), w2))
               else (None, w1))
      else (None, w))"

text \<open>
  \<open>tryDeterministicWriteFallback\<close> reads the message and picks a market before it touches
  any state. That first part is \<open>fallbackPlan\<close>: the trade-history request, \<open>null\<close>, a
  fixed reply, a thrown search, or the pseudo intent with its action and selected market.
\<close>

datatype FallbackPlan =
    PlanHistory
  | PlanNull
  | PlanReply string
  | PlanThrow
  | PlanTrade TradeIntent TradeAction Market

definition fallbackPlan :: "RouteEnv \<Rightarrow> string \<Rightarrow> DiscordUserId \<Rightarrow> FallbackPlan" where
  "fallbackPlan env message u =
     (let normalized = toLowerCase (trimString message)
      in if regexTest False fallbackHistoryPattern normalized then PlanHistory
         else
           (let amountMatch =
                  (case firstCapture (RSeq (RLit CHR ''$'') (RStar RSpace)) decimalAmount REps
                          normalized of
                     Some t \<Rightarrow> Some t
                   | None \<Rightarrow>
                       firstCapture RBoundary decimalAmount
                         (rseq [RStar RSpace, currencyWord, RBoundary]) normalized);
                isSell = regexTest False sellPattern normalized;
                act = (if isSell then SELL else BUY);
                oc = (if regexTest False yesPattern normalized then Some YES
                      else if regexTest False noPattern normalized then Some NO
                      else None)
            in case amountMatch of
                 None \<Rightarrow> PlanNull
               | Some amountText \<Rightarrow>
                   (case oc of
                      None \<Rightarrow> PlanNull
                    | Some theOutcome \<Rightarrow>
                        (if \<not> regexTest False fallbackKeywordPattern normalized then PlanNull
                         else
                           (let cents = centsOfDecimal amountText
                            in if cents \<le> 0
                               then PlanReply
                                  ''The trade amount is invalid. Please provide a positive amount.''
                               else if \<not> (regexTest False bitcoinPattern normalized
                                         \<or> regexTest False ethereumPattern normalized)
                               then PlanNull
                               else
                                 (case (case tryResolveTimedUpDownMarket env message of
                                          Some (m, slug) \<Rightarrow> Returned (Some m)
                                        | None \<Rightarrow> re_searchPick env) of
                                    Threw \<Rightarrow> PlanThrow
                                  | Returned None \<Rightarrow>
                                      PlanReply
                                        ''I could not find an active matching market right now. Please specify the market ID.''
                                  | Returned (Some selectedMarket) \<Rightarrow>
                                      PlanTrade
                                        \<lparr> userId = u, marketId = m_id selectedMarket,
                                          outcome = theOutcome, action = Some act,
                                          amountCents = cents, rawText = Some message \<rparr>
                                        act selectedMarket))))))"

definition tryDeterministicWriteFallback ::
  "RouteEnv \<Rightarrow> string \<Rightarrow> DiscordUserId \<Rightarrow> World \<Rightarrow> RouteResult option attempt \<times> World" where
  "tryDeterministicWriteFallback env message u w =
     (case fallbackPlan env message u of
        PlanHistory \<Rightarrow>
          (case re_getRecentTrades env of
             Threw \<Rightarrow> (Threw, w)
           | Returned n \<Rightarrow>
               (if n = 0 then (Returned (Some (Text (Fixed ''You have no recent trades yet.''))), w)
                else (Returned (Some (Text TradesReport)), w)))
      | PlanNull \<Rightarrow> (Returned None, w)
      | PlanReply content \<Rightarrow> (Returned (Some (Text (Fixed content))), w)
      | PlanThrow \<Rightarrow> (Threw, w)
      | PlanTrade pseudoIntent act selectedMarket \<Rightarrow>
          (case spendGate env u act (amountCents pseudoIntent) w of
             (Some refusal, w1) \<Rightarrow> (Returned (Some refusal), w1)
           | (None, w1) \<Rightarrow>
               (case confirmTrade env u pseudoIntent act (Some selectedMarket) w1 of
                  (Threw, w2) \<Rightarrow> (Threw, w2)
                | (Returned r, w2) \<Rightarrow> (Returned (Some r), w2))))"

definition handleWrite_get_balance ::
  "RouteEnv \<Rightarrow> string \<Rightarrow> DiscordUserId \<Rightarrow> string option \<Rightarrow> World \<Rightarrow> RouteResult attempt \<times> World" where
  "handleWrite_get_balance env message u raw w =
     (let rawText = (case raw of None \<Rightarrow> message | Some t \<Rightarrow> t)
      in if regexTest False walletAddressPattern rawText
         then (Returned (Text WalletReport), w)
         else
           (case re_getBalance env of
              Threw \<Rightarrow> (Threw, w)
            | Returned availableCents \<Rightarrow>
                (if isOwnerExempt u then (Returned (Text (OwnerWallet availableCents)), w)
                 else
                   (let (spent, w1) = callGetSpentToday (re_clock env) u w;
                        (remaining, w2) = callGetRemainingToday (re_clock env) u w1
                    in (Returned (Text (UserWallet availableCents spent remaining)), w2)))))"

definition handleWrite_get_trade_history ::
  "RouteEnv \<Rightarrow> DiscordUserId \<Rightarrow> World \<Rightarrow> RouteResult attempt \<times> World" where
  "handleWrite_get_trade_history env u w =
     (case re_buildValidationContext env of
        Threw \<Rightarrow> (Threw, w)
      | Returned validationContext \<Rightarrow>
          (let linkedAccountId =
                 (case vc_polymarketAccountId validationContext of
                    Some a \<Rightarrow> Some a
                  | None \<Rightarrow>
                      (case re_proxyWallet env of
                         None \<Rightarrow> None
                       | Some p \<Rightarrow> (if p = [] then None else Some p)))
           in case linkedAccountId of
                None \<Rightarrow> (Returned (Text (Fixed
                          ''Trading is not available right now. Please contact an admin.'')), w)
              | Some a \<Rightarrow>
                  (if a = [] then (Returned (Text (Fixed
                          ''Trading is not available right now. Please contact an admin.'')), w)
                   else if re_activities env > 0 then (Returned (Text ActivityReport), w)
                   else
                     (case re_getRecentTrades env of
                        Threw \<Rightarrow> (Threw, w)
                      | Returned n \<Rightarrow>
                          (if n = 0 then (Returned (Text (Fixed ''You have no recent trades yet.'')), w)
                           else (Returned (Text TradesReport), w))))))"

definition handleWrite_place_bet ::
  "RouteEnv \<Rightarrow> string \<Rightarrow> DiscordUserId \<Rightarrow> TradeIntent \<Rightarrow> World \<Rightarrow> RouteResult attempt \<times> World" where
  "handleWrite_place_bet env message u agentOutput w =
     (let actionForSpend = (case action agentOutput of None \<Rightarrow> BUY | Some a \<Rightarrow> a)
      in case spendGate env u actionForSpend (amountCents agentOutput) w of
           (Some refusal, w1) \<Rightarrow> (Returned refusal, w1)
         | (None, w1) \<Rightarrow>
             (case re_getMarketById env (marketId agentOutput) of
                Threw \<Rightarrow> (Threw, w1)
              | Returned resolvedMarket \<Rightarrow>
                  (let timedResolution = tryResolveTimedUpDownMarket env message;
                       effectiveMarket =
                         (case timedResolution of
                            Some (m, slug) \<Rightarrow> Some m
                          | None \<Rightarrow> resolvedMarket);
                       effectiveIntent = agentOutput
                         \<lparr> marketId := (case effectiveMarket of
                                          Some m \<Rightarrow> m_id m
                                        | None \<Rightarrow> marketId agentOutput) \<rparr>
                   in confirmTrade env u effectiveIntent actionForSpend effectiveMarket w1)))"

definition handleWrite ::
  "RouteEnv \<Rightarrow> string \<Rightarrow> DiscordUserId \<Rightarrow> World \<Rightarrow> RouteResult attempt \<times> World" where
  "handleWrite env message u w =
     (case parseIntent env message u of
        None \<Rightarrow>
          (case tryDeterministicWriteFallback env message u w of
             (Threw, w1) \<Rightarrow> (Threw, w1)
           | (Returned (Some fallback), w1) \<Rightarrow> (Returned fallback, w1)
           | (Returned None, w1) \<Rightarrow> (Returned (Text (Fixed parseFailureReply)), w1))
      | Some (GetBalance uid raw) \<Rightarrow> handleWrite_get_balance env message u raw w
      | Some (GetTradeHistory uid lim raw) \<Rightarrow> handleWrite_get_trade_history env u w
      | Some (QueryMarket uid m q raw) \<Rightarrow> (Returned (Text (Fixed notATradeReply)), w)
      | Some (PlaceBet b) \<Rightarrow> handleWrite_place_bet env message u b w)"

definition handleRead :: "RouteEnv \<Rightarrow> World \<Rightarrow> RouteResult attempt \<times> World" where
  "handleRead env w =
     (case re_handleRead env of
        Threw \<Rightarrow> (Threw, w)
      | Returned content \<Rightarrow> (Returned (Text (ReadReply content)), w))"

text \<open>
  \<open>routeMessage\<close> awaits \<open>handleRead\<close> inside its \<open>try\<close>, so a throw there becomes the
  generic reply; it returns the promise of \<open>handleWrite\<close> without awaiting it, so a throw
  there is not caught and the call rejects.
\<close>

definition routeMessage ::
  "RouteEnv \<Rightarrow> string \<Rightarrow> DiscordUserId \<Rightarrow> World \<Rightarrow> RouteResult attempt \<times> World" where
  "routeMessage env message u w =
     (if isDeterministicWriteMessage message then handleWrite env message u w
      else if classifyMessageIntent message = READ
      then (case handleRead env w of
              (Threw, w1) \<Rightarrow> (Returned (Text (Fixed somethingWentWrongReply)), w1)
            | (Returned content, w1) \<Rightarrow> (Returned content, w1))
      else handleWrite env message u w)"

subsection \<open>Runs of operations\<close>

datatype Op =
    OpRoute RouteEnv string DiscordUserId
  | OpExecute ExecEnv string
  | OpCancel string
  | OpPurge int

fun applyOp :: "Op \<Rightarrow> World \<Rightarrow> World" where
  "applyOp (OpRoute env message u) w = snd (routeMessage env message u w)"
| "applyOp (OpExecute env confirmId) w = snd (executePendingTrade env confirmId w)"
| "applyOp (OpCancel confirmId) w = snd (cancelPendingTrade confirmId w)"
| "applyOp (OpPurge now) w = purgeExpired now w"

fun runOps :: "Op list \<Rightarrow> World \<Rightarrow> World" where
  "runOps [] w = w"
| "runOps (op # ops) w = runOps ops (applyOp op w)"

text \<open>The confirmation ids a run draws from \<open>crypto.randomUUID\<close>.\<close>

fun drawnIds :: "Op list \<Rightarrow> string list" where
  "drawnIds [] = []"
| "drawnIds (OpRoute env message u # ops) = re_uuid env # drawnIds ops"
| "drawnIds (op # ops) = drawnIds ops"

definition emptyWorld :: World where
  "emptyWorld = \<lparr> pendingTrades = Map.empty, spendLedger = Map.empty, placedTrades = [],
                   builtRequests = [], ledgerCalls = [] \<rparr>"

text \<open>
  A message asks for a sell when the parser's intent is a \<open>place_bet\<close> with action SELL
  or, the parser having returned null, the fallback's sell pattern matches.
\<close>

definition isSellRequest :: "RouteEnv \<Rightarrow> string \<Rightarrow> DiscordUserId \<Rightarrow> bool" where
  "isSellRequest env message u =
     (case parseIntent env message u of
        None \<Rightarrow> regexTest False sellPattern (toLowerCase (trimString message))
      | Some (PlaceBet b) \<Rightarrow> action b = Some SELL
      | Some other \<Rightarrow> False)"

section \<open>Example values\<close>

text \<open>Concrete inputs on which the theorems below are instantiated.\<close>

definition exampleMarket :: Market where
  "exampleMarket = \<lparr> m_id = ''m1'', m_question = ''Bitcoin up or down?'', m_status = active \<rparr>"

definition exampleRequest :: "TradeAction \<Rightarrow> TradeRequest" where
  "exampleRequest act =
     \<lparr> identity = \<lparr> discordUserId = ''u1'', polymarketAccountId = ''acct'' \<rparr>,
       market = exampleMarket, req_outcome = YES, req_action = act, req_amountCents = 500,
       idempotencyKey = ''u1:acct:m1:YES:500:0'', requestedAtMs = 0 \<rparr>"

definition exampleExecutor :: "TradeAction \<Rightarrow> Executor" where
  "exampleExecutor act =
     \<lparr> ex_tradeRequest = exampleRequest act, ex_action = act, ex_discordUserId = ''u1'',
       ex_amountCentsNum = 500, ex_marketQuestion = ''Bitcoin up or down?'', ex_outcome = YES \<rparr>"

definition exampleContext :: ValidationContext where
  "exampleContext =
     \<lparr> vc_polymarketAccountId = Some ''acct'', remainingDailyLimitCents = 500,
       spentThisHourCents = 0, marketLookup = (\<lambda>m. None) \<rparr>"

text \<open>
  An environment in which the intent parser's model answers \<open>parsed\<close> (and has no key
  when that is nothing), the market service knows \<open>m1\<close>, the events API knows the timed
  market, and every collaborator returns.
\<close>

definition exampleEnv :: "string \<Rightarrow> AgentOutput option \<Rightarrow> RouteEnv" where
  "exampleEnv uuid parsed =
     \<lparr> re_clock = 0, re_storedAt = 0, re_nowMs = 0, re_uuid = uuid,
       re_hasKeys = (parsed \<noteq> None), re_modelOutput = parsed,
       re_getMarketById = (\<lambda>m. Returned (if m = ''m1'' then Some exampleMarket else None)),
       re_timedEvent = Some (exampleMarket, ''btc-updown-5m-0''),
       re_searchPick = Returned None,
       re_buildValidationContext = Returned exampleContext,
       re_proxyWallet = Some ''acct'',
       re_getBalance = Returned 0, re_activities = 0, re_getRecentTrades = Returned 0,
       re_handleRead = Returned [] \<rparr>"

definition exampleExec :: "int \<Rightarrow> ExecEnv" where
  "exampleExec now = \<lparr> ee_clock = now, ee_placeTrade = TradeOk ''t1'' now, ee_recordClock = now \<rparr>"

definition exampleBet :: "TradeAction \<Rightarrow> AgentOutput" where
  "exampleBet act =
     PlaceBet \<lparr> userId = ''u1'', marketId = ''m1'', outcome = YES, action = Some act,
                amountCents = 500, rawText = None \<rparr>"

section \<open>Properties\<close>

subsection \<open>Validator\<close>

text \<open>
  C5 as stated fails: with an active market and an amount within the remaining daily
  allowance the validator still rejects a request whose account is unresolved, and one
  whose amount takes the rolling hour past its own ceiling of 500 cents.
\<close>

theorem C5_counterexample:
  "marketLookup \<lparr> vc_polymarketAccountId = None, remainingDailyLimitCents = 500,
       spentThisHourCents = 0, marketLookup = (\<lambda>m. Some (m, active)) \<rparr> ''m1'' = Some (''m1'', active)
   \<and> validateAgentOutput
       (PlaceBet \<lparr> userId = ''u1'', marketId = ''m1'', outcome = YES, action = Some BUY,
                   amountCents = 500, rawText = None \<rparr>)
       \<lparr> vc_polymarketAccountId = None, remainingDailyLimitCents = 500,
         spentThisHourCents = 0, marketLookup = (\<lambda>m. Some (m, active)) \<rparr>
     = ValidationFailed ACCOUNT_NOT_CONNECTED
   \<and> validateAgentOutput
       (PlaceBet \<lparr> userId = ''u1'', marketId = ''m1'', outcome = YES, action = Some BUY,
                   amountCents = 600, rawText = None \<rparr>)
       \<lparr> vc_polymarketAccountId = Some ''acct'', remainingDailyLimitCents = 1000,
         spentThisHourCents = 0, marketLookup = (\<lambda>m. Some (m, active)) \<rparr>
     = ValidationFailed LIMIT_EXCEEDED"
  by (simp add: validateAgentOutput_def HOURLY_LIMIT_CENTS_def)

text \<open>
  C5 (amended): for a \<open>place_bet\<close> intent whose account is resolved, whose market the lookup
  reports active, and whose amount satisfies 500 \<le> amountCents \<le> remainingDailyLimitCents
  and spentThisHourCents + amountCents \<le> 500, the validator returns Ok.
\<close>

theorem C5_validate_ok:
  assumes "vc_polymarketAccountId context \<noteq> None"
    and "marketLookup context (marketId b) = Some (mid, active)"
    and "500 \<le> amountCents b"
    and "amountCents b \<le> remainingDailyLimitCents context"
    and "spentThisHourCents context + amountCents b \<le> HOURLY_LIMIT_CENTS"
  shows "validateAgentOutput (PlaceBet b) context = ValidationOk"
  using assms by (simp add: validateAgentOutput_def)

theorem C5_validate_ok_witness:
  "validateAgentOutput
       (PlaceBet \<lparr> userId = ''u1'', marketId = ''m1'', outcome = YES, action = Some BUY,
                   amountCents = 500, rawText = None \<rparr>)
       \<lparr> vc_polymarketAccountId = Some ''acct'', remainingDailyLimitCents = 500,
         spentThisHourCents = 0, marketLookup = (\<lambda>m. Some (m, active)) \<rparr>
     = ValidationOk"
  by (rule C5_validate_ok [where mid = "''m1''"]) (simp_all add: HOURLY_LIMIT_CENTS_def)

subsection \<open>Request builder\<close>

lemma digitChar_inj: "a < 10 \<Longrightarrow> b < 10 \<Longrightarrow> digitChar a = digitChar b \<Longrightarrow> a = b"
proof -
  assume a: "a < 10" and b: "b < 10" and e: "digitChar a = digitChar b"
  have d: "distinct ''0123456789''" by simp
  have l: "length ''0123456789'' = 10" by simp
  from e have "''0123456789'' ! a = ''0123456789'' ! b" by (simp only: digitChar_def)
  with a b show "a = b"
    using nth_eq_iff_index_eq [OF d, of a b] l by simp
qed

lemma digitChar_no_minus: "d < 10 \<Longrightarrow> digitChar d \<noteq> CHR ''-''"
proof -
  assume "d < 10"
  then have "digitChar d \<in> set ''0123456789''"
    unfolding digitChar_def by (intro nth_mem) simp
  then show ?thesis by auto
qed

lemma natToDigits_nonempty: "natToDigits n \<noteq> []"
  by (subst natToDigits.simps) simp

lemma natToDigits_inj: "natToDigits m = natToDigits n \<Longrightarrow> m = n"
proof (induction m arbitrary: n rule: natToDigits.induct)
  case (1 m)
  show ?case
  proof (cases "m < 10")
    case True
    note m = this
    show ?thesis
    proof (cases "n < 10")
      case True
      with m "1.prems" show ?thesis
        by (simp add: natToDigits.simps [of m] natToDigits.simps [of n] digitChar_inj)
    next
      case False
      with m "1.prems" natToDigits_nonempty [of "n div 10"] show ?thesis
        by (simp add: natToDigits.simps [of m] natToDigits.simps [of n])
    qed
  next
    case False
    note m = this
    show ?thesis
    proof (cases "n < 10")
      case True
      with m "1.prems" natToDigits_nonempty [of "m div 10"] show ?thesis
        by (simp add: natToDigits.simps [of m] natToDigits.simps [of n])
    next
      case False
      with m "1.prems" have e: "natToDigits (m div 10) = natToDigits (n div 10)"
        and d: "digitChar (m mod 10) = digitChar (n mod 10)"
        by (simp_all add: natToDigits.simps [of m] natToDigits.simps [of n])
      from "1.IH" [OF m e] have "m div 10 = n div 10" .
      moreover from d have "m mod 10 = n mod 10" by (simp add: digitChar_inj)
      ultimately show ?thesis by (metis div_mult_mod_eq)
    qed
  qed
qed

lemma natToDigits_no_minus: "hd (natToDigits n) \<noteq> CHR ''-''"
proof (induction n rule: natToDigits.induct)
  case (1 n)
  show ?case
  proof (cases "n < 10")
    case True
    then have "digitChar n \<noteq> CHR ''-''" by (rule digitChar_no_minus)
    with True show ?thesis by (simp add: natToDigits.simps [of n])
  next
    case False
    with "1.IH" natToDigits_nonempty [of "n div 10"] show ?thesis
      by (simp add: natToDigits.simps [of n])
  qed
qed

lemma numberToString_inj: "numberToString i = numberToString j \<Longrightarrow> i = j"
proof -
  assume e: "numberToString i = numberToString j"
  have neg: "natToDigits a \<noteq> CHR ''-'' # s" for a s
    using natToDigits_no_minus [of a] by (cases "natToDigits a") auto
  show "i = j"
  proof (cases "i < 0")
    case True
    note i = this
    show ?thesis
    proof (cases "j < 0")
      case True
      with i e have "natToDigits (nat (- i)) = natToDigits (nat (- j))"
        by (simp add: numberToString_def)
      then have "nat (- i) = nat (- j)" by (rule natToDigits_inj)
      with i True show ?thesis by simp
    next
      case False
      with i e neg show ?thesis by (simp add: numberToString_def) metis
    qed
  next
    case False
    note i = this
    show ?thesis
    proof (cases "j < 0")
      case True
      with i e neg show ?thesis by (simp add: numberToString_def)
    next
      case False
      with i e have "natToDigits (nat i) = natToDigits (nat j)"
        by (simp add: numberToString_def)
      then have "nat i = nat j" by (rule natToDigits_inj)
      with i False show ?thesis by simp
    qed
  qed
qed

lemma key_shape:
  "createDeterministicIdempotencyKey input =
     discordUserId (ik_identity input) @ '':'' @ polymarketAccountId (ik_identity input) @ '':'' @
     ik_marketId input @ '':'' @ outcomeText (ik_outcome input) @ '':'' @
     numberToString (ik_amountCents input) @ '':'' @ numberToString (ik_nowMs input div ik_windowMs input)"
  by (simp add: createDeterministicIdempotencyKey_def Let_def)

text \<open>
  C6: the idempotency key is the colon-join of user id, account id, market id, outcome,
  amount and \<open>floor(nowMs / 300000)\<close>; two requests that agree on identity, market,
  outcome and amount have equal keys exactly when their instants fall in the same
  five-minute bucket.
\<close>

theorem C6_idempotency_key:
  assumes "bc_identity c1 = bc_identity c2"
    and "m_id (bc_market c1) = m_id (bc_market c2)"
    and "outcome b1 = outcome b2"
    and "amountCents b1 = amountCents b2"
  shows "\<exists>r1 r2. buildTradeRequest (PlaceBet b1) c1 = Inr r1
           \<and> buildTradeRequest (PlaceBet b2) c2 = Inr r2
           \<and> idempotencyKey r1 =
               joinWith '':'' [discordUserId (bc_identity c1), polymarketAccountId (bc_identity c1),
                 m_id (bc_market c1), outcomeText (outcome b1), numberToString (amountCents b1),
                 numberToString (bc_nowMs c1 div 300000)]
           \<and> ((idempotencyKey r1 = idempotencyKey r2)
                = (bc_nowMs c1 div 300000 = bc_nowMs c2 div 300000))"
  using assms numberToString_inj [of "bc_nowMs c1 div 300000" "bc_nowMs c2 div 300000"]
  by (auto simp: buildTradeRequest_def key_shape IDEMPOTENCY_WINDOW_MS_def)

theorem C6_idempotency_key_witness:
  "\<exists>r1 r2 r3.
     buildTradeRequest
       (PlaceBet \<lparr> userId = ''u1'', marketId = ''m1'', outcome = YES, action = Some BUY,
                   amountCents = 500, rawText = None \<rparr>)
       \<lparr> bc_identity = \<lparr> discordUserId = ''u1'', polymarketAccountId = ''acct'' \<rparr>,
         bc_market = \<lparr> m_id = ''m1'', m_question = ''q'', m_status = active \<rparr>,
         bc_nowMs = 0 \<rparr> = Inr r1
   \<and> buildTradeRequest
       (PlaceBet \<lparr> userId = ''u1'', marketId = ''m1'', outcome = YES, action = Some BUY,
                   amountCents = 500, rawText = None \<rparr>)
       \<lparr> bc_identity = \<lparr> discordUserId = ''u1'', polymarketAccountId = ''acct'' \<rparr>,
         bc_market = \<lparr> m_id = ''m1'', m_question = ''q'', m_status = active \<rparr>,
         bc_nowMs = 299999 \<rparr> = Inr r2
   \<and> buildTradeRequest
       (PlaceBet \<lparr> userId = ''u1'', marketId = ''m1'', outcome = YES, action = Some BUY,
                   amountCents = 500, rawText = None \<rparr>)
       \<lparr> bc_identity = \<lparr> discordUserId = ''u1'', polymarketAccountId = ''acct'' \<rparr>,
         bc_market = \<lparr> m_id = ''m1'', m_question = ''q'', m_status = active \<rparr>,
         bc_nowMs = 300000 \<rparr> = Inr r3
   \<and> idempotencyKey r1 = ''u1:acct:m1:YES:500:0''
   \<and> idempotencyKey r2 = idempotencyKey r1
   \<and> idempotencyKey r3 \<noteq> idempotencyKey r1"
proof -
  let ?b = "\<lparr> userId = ''u1'', marketId = ''m1'', outcome = YES, action = Some BUY,
                   amountCents = 500, rawText = None \<rparr>"
  let ?c = "\<lambda>t. \<lparr> bc_identity = \<lparr> discordUserId = ''u1'', polymarketAccountId = ''acct'' \<rparr>,
             bc_market = \<lparr> m_id = ''m1'', m_question = ''q'', m_status = active \<rparr>,
             bc_nowMs = t \<rparr>"
  from C6_idempotency_key [of "?c 0" "?c 299999" ?b ?b]
  obtain r1 r2 where r1: "buildTradeRequest (PlaceBet ?b) (?c 0) = Inr r1"
    and r2: "buildTradeRequest (PlaceBet ?b) (?c 299999) = Inr r2"
    and k1: "idempotencyKey r1 =
               joinWith '':'' [''u1'', ''acct'', ''m1'', outcomeText YES, numberToString 500,
                 numberToString (0 div 300000)]"
    and k12: "(idempotencyKey r1 = idempotencyKey r2) = ((0::int) div 300000 = 299999 div 300000)"
    by auto
  from C6_idempotency_key [of "?c 0" "?c 300000" ?b ?b]
  obtain r1' r3 where r1': "buildTradeRequest (PlaceBet ?b) (?c 0) = Inr r1'"
    and r3: "buildTradeRequest (PlaceBet ?b) (?c 300000) = Inr r3"
    and k13: "(idempotencyKey r1' = idempotencyKey r3) = ((0::int) div 300000 = 300000 div 300000)"
    by auto
  from r1 r1' have same: "r1' = r1" by simp
  from k1 have "idempotencyKey r1 = ''u1:acct:m1:YES:500:0''"
    by (simp add: numberToString_def natToDigits.simps digitChar_def)
  moreover from k12 have "idempotencyKey r2 = idempotencyKey r1" by simp
  moreover from k13 same have "idempotencyKey r3 \<noteq> idempotencyKey r1" by auto
  ultimately show ?thesis using r1 r2 r3 by blast
qed

subsection \<open>Spend ledger\<close>

lemma memGetSpent_fst: "fst (memGetSpent now u ledger) = spentOn (utcDateKey now) u ledger"
  by (simp add: memGetSpent_def spentOn_def evictStaleEntries_def Let_def split: option.splits)

lemma memGetSpent_snd:
  "snd (memGetSpent now u ledger) = ledger(u := map_option (evictStaleEntries now) (ledger u))"
  by (auto simp: memGetSpent_def Let_def split: option.splits)

lemma spentOn_evicted:
  "u' \<noteq> u \<or> d = utcDateKey now \<or> d = utcDateKey (now - 86400000) \<Longrightarrow>
   spentOn d u' (ledger(u := map_option (evictStaleEntries now) (ledger u))) = spentOn d u' ledger"
  by (auto simp: spentOn_def evictStaleEntries_def Let_def split: option.splits)

lemma spentOn_memRecordSpend:
  "spentOn d u' (memRecordSpend now u amount ledger) =
     (if u' = u \<and> d = utcDateKey now then spentOn d u' ledger + amount else spentOn d u' ledger)"
  by (auto simp: spentOn_def memRecordSpend_def Let_def split: option.splits)

lemma trySpend_accept:
  assumes "spentOn (utcDateKey now) u ledger + amount \<le> DAILY_LIMIT_CENTS"
  shows "fst (trySpend now u amount ledger) = True"
    and "spentOn (utcDateKey now) u (snd (trySpend now u amount ledger)) =
           spentOn (utcDateKey now) u ledger + amount"
  using assms memGetSpent_fst [of now u ledger] memGetSpent_snd [of now u ledger]
  by (auto simp: trySpend_def split_beta spentOn_memRecordSpend spentOn_evicted)

lemma trySpend_reject:
  assumes "spentOn (utcDateKey now) u ledger + amount > DAILY_LIMIT_CENTS"
  shows "trySpend now u amount ledger =
           (False, ledger(u := map_option (evictStaleEntries now) (ledger u)))"
  using assms memGetSpent_fst [of now u ledger] memGetSpent_snd [of now u ledger]
  by (auto simp: trySpend_def split_beta prod_eq_iff)

lemma trySpend_step:
  "spentOn (utcDateKey now) u (snd (trySpend now u amount ledger)) =
     spentOn (utcDateKey now) u ledger + (if fst (trySpend now u amount ledger) then amount else 0)"
proof (cases "spentOn (utcDateKey now) u ledger + amount \<le> DAILY_LIMIT_CENTS")
  case True
  then show ?thesis by (simp add: trySpend_accept)
next
  case False
  then have "trySpend now u amount ledger =
           (False, ledger(u := map_option (evictStaleEntries now) (ledger u)))"
    by (intro trySpend_reject) simp
  then show ?thesis by (simp add: spentOn_evicted)
qed

lemma trySpend_bound:
  "spentOn (utcDateKey now) u ledger \<le> DAILY_LIMIT_CENTS \<Longrightarrow>
   spentOn (utcDateKey now) u (snd (trySpend now u amount ledger)) \<le> DAILY_LIMIT_CENTS"
proof (cases "spentOn (utcDateKey now) u ledger + amount \<le> DAILY_LIMIT_CENTS")
  case True
  then show ?thesis by (simp add: trySpend_accept)
next
  case False
  assume b: "spentOn (utcDateKey now) u ledger \<le> DAILY_LIMIT_CENTS"
  from False have "trySpend now u amount ledger =
           (False, ledger(u := map_option (evictStaleEntries now) (ledger u)))"
    by (intro trySpend_reject) simp
  with b show ?thesis by (simp add: spentOn_evicted)
qed

lemma trySpendAll_sum:
  "\<forall>c \<in> set calls. utcDateKey (fst c) = d \<Longrightarrow>
   spentOn d u (snd (trySpendAll u calls ledger)) =
     spentOn d u ledger + sum_list (accepted calls (fst (trySpendAll u calls ledger)))"
proof (induction calls arbitrary: ledger)
  case Nil
  then show ?case by simp
next
  case (Cons c calls)
  obtain now amount where c: "c = (now, amount)" by (cases c)
  from Cons.prems c have d: "utcDateKey now = d" by simp
  from Cons.prems have rest: "\<forall>c \<in> set calls. utcDateKey (fst c) = d" by simp
  show ?case
    using Cons.IH [OF rest, of "snd (trySpend now u amount ledger)"]
      trySpend_step [of now u amount ledger] d
    by (simp add: c split_beta)
qed

lemma trySpendAll_bound:
  "\<forall>c \<in> set calls. utcDateKey (fst c) = d \<Longrightarrow> spentOn d u ledger \<le> DAILY_LIMIT_CENTS \<Longrightarrow>
   spentOn d u (snd (trySpendAll u calls ledger)) \<le> DAILY_LIMIT_CENTS"
proof (induction calls arbitrary: ledger)
  case Nil
  then show ?case by simp
next
  case (Cons c calls)
  obtain now amount where c: "c = (now, amount)" by (cases c)
  from Cons.prems c have d: "utcDateKey now = d" by simp
  from Cons.prems have rest: "\<forall>c \<in> set calls. utcDateKey (fst c) = d" by simp
  from Cons.prems(2) d have "spentOn d u (snd (trySpend now u amount ledger)) \<le> DAILY_LIMIT_CENTS"
    using trySpend_bound [of now u ledger amount] by simp
  from Cons.IH [OF rest this] show ?case
    by (simp add: c split_beta)
qed

text \<open>
  C2 as stated fails in one point: a rejected \<open>trySpend\<close> is not free of mutation. The
  check reads the counter through \<open>memGetSpent\<close>, which evicts the caller's buckets of
  days other than today and yesterday; here a bucket of day 0 is gone after a rejected
  call on day 5.
\<close>

theorem C2_counterexample:
  "spentOn 5 ''u1'' [''u1'' \<mapsto> [0 \<mapsto> 100]] + 600 > DAILY_LIMIT_CENTS
   \<and> fst (trySpend 432000000 ''u1'' 600 [''u1'' \<mapsto> [0 \<mapsto> 100]]) = False
   \<and> Option.bind ([''u1'' \<mapsto> [0 \<mapsto> (100::int)]] ''u1'') (\<lambda>m. m (0::int)) = Some 100
   \<and> Option.bind (snd (trySpend 432000000 ''u1'' 600 [''u1'' \<mapsto> [0 \<mapsto> 100]]) ''u1'') (\<lambda>m. m 0) = None"
  by (simp add: trySpend_def memGetSpent_def evictStaleEntries_def utcDateKey_def spentOn_def
      DAILY_LIMIT_CENTS_def Let_def)

text \<open>
  C2 (amended): \<open>trySpend\<close> checks \<open>current + amount \<le> 500\<close> against the caller's counter
  of the current UTC day. When the check passes it returns true and the counter has grown
  by exactly the amount. When it fails it returns false and the ledger is the one before
  with the caller's stale buckets evicted: every counter of today and yesterday, and every
  counter of every other user, is unchanged. Over any run of calls within one UTC day the
  counter ends at its start plus the amounts of the calls that succeeded, and never above
  the ceiling when it started at or below it.
\<close>

theorem C2_trySpend:
  "(spentOn (utcDateKey now) u ledger + amount \<le> DAILY_LIMIT_CENTS \<longrightarrow>
      fst (trySpend now u amount ledger) = True
      \<and> spentOn (utcDateKey now) u (snd (trySpend now u amount ledger))
          = spentOn (utcDateKey now) u ledger + amount)
   \<and> (spentOn (utcDateKey now) u ledger + amount > DAILY_LIMIT_CENTS \<longrightarrow>
      trySpend now u amount ledger
        = (False, ledger(u := map_option (evictStaleEntries now) (ledger u)))
      \<and> (\<forall>u' d. u' \<noteq> u \<or> d = utcDateKey now \<or> d = utcDateKey (now - 86400000) \<longrightarrow>
            spentOn d u' (snd (trySpend now u amount ledger)) = spentOn d u' ledger))
   \<and> ((\<forall>c \<in> set calls. utcDateKey (fst c) = d) \<and> spentOn d u ledger \<le> DAILY_LIMIT_CENTS \<longrightarrow>
      spentOn d u (snd (trySpendAll u calls ledger))
        = spentOn d u ledger + sum_list (accepted calls (fst (trySpendAll u calls ledger)))
      \<and> spentOn d u (snd (trySpendAll u calls ledger)) \<le> DAILY_LIMIT_CENTS)"
proof (intro conjI impI)
  assume "spentOn (utcDateKey now) u ledger + amount \<le> DAILY_LIMIT_CENTS"
  then show "fst (trySpend now u amount ledger) = True"
    and "spentOn (utcDateKey now) u (snd (trySpend now u amount ledger))
          = spentOn (utcDateKey now) u ledger + amount"
    by (rule trySpend_accept)+
next
  assume "spentOn (utcDateKey now) u ledger + amount > DAILY_LIMIT_CENTS"
  then have r: "trySpend now u amount ledger
        = (False, ledger(u := map_option (evictStaleEntries now) (ledger u)))"
    by (rule trySpend_reject)
  then show "trySpend now u amount ledger
        = (False, ledger(u := map_option (evictStaleEntries now) (ledger u)))" .
  show "\<forall>u' d. u' \<noteq> u \<or> d = utcDateKey now \<or> d = utcDateKey (now - 86400000) \<longrightarrow>
            spentOn d u' (snd (trySpend now u amount ledger)) = spentOn d u' ledger"
    unfolding r snd_conv using spentOn_evicted by blast
next
  assume a: "(\<forall>c \<in> set calls. utcDateKey (fst c) = d) \<and> spentOn d u ledger \<le> DAILY_LIMIT_CENTS"
  then show "spentOn d u (snd (trySpendAll u calls ledger))
        = spentOn d u ledger + sum_list (accepted calls (fst (trySpendAll u calls ledger)))"
    by (intro trySpendAll_sum) simp
  from a show "spentOn d u (snd (trySpendAll u calls ledger)) \<le> DAILY_LIMIT_CENTS"
    by (intro trySpendAll_bound) simp_all
qed

theorem C2_trySpend_witness:
  "fst (trySpend 0 ''u1'' 300 Map.empty) = True
   \<and> spentOn 0 ''u1'' (snd (trySpend 0 ''u1'' 300 Map.empty)) = 300
   \<and> trySpend 432000000 ''u1'' 200 [''u1'' \<mapsto> [5 \<mapsto> 400, 0 \<mapsto> 100]]
       = (False, [''u1'' \<mapsto> [5 \<mapsto> 400]])
   \<and> fst (trySpendAll ''u1'' [(0, 300), (1, 300), (2, 200)] Map.empty) = [True, False, True]
   \<and> spentOn 0 ''u1'' (snd (trySpendAll ''u1'' [(0, 300), (1, 300), (2, 200)] Map.empty)) = 500"
proof -
  have e: "[''u1'' \<mapsto> [5 \<mapsto> 400, 0 \<mapsto> 100]](''u1'' := map_option (evictStaleEntries 432000000)
             ([''u1'' \<mapsto> [5 \<mapsto> 400, 0 \<mapsto> 100]] ''u1'')) = [''u1'' \<mapsto> [5 \<mapsto> (400::int)]]"
    by (auto simp: evictStaleEntries_def utcDateKey_def Let_def fun_eq_iff)
  have oks: "fst (trySpendAll ''u1'' [(0, 300), (1, 300), (2, 200)] Map.empty) = [True, False, True]"
    by (simp add: trySpend_def memGetSpent_def memRecordSpend_def evictStaleEntries_def
        utcDateKey_def DAILY_LIMIT_CENTS_def Let_def split_beta)
  have h1: "spentOn (utcDateKey 0) ''u1'' Map.empty + 300 \<le> DAILY_LIMIT_CENTS"
    by (simp add: spentOn_def DAILY_LIMIT_CENTS_def)
  have h2: "spentOn (utcDateKey 432000000) ''u1'' [''u1'' \<mapsto> [5 \<mapsto> 400, 0 \<mapsto> 100]] + 200
              > DAILY_LIMIT_CENTS"
    by (simp add: spentOn_def utcDateKey_def DAILY_LIMIT_CENTS_def)
  have h3: "(\<forall>c \<in> set [(0, 300), (1, 300), (2, 200::int)]. utcDateKey (fst c) = 0)
              \<and> spentOn 0 ''u1'' Map.empty \<le> DAILY_LIMIT_CENTS"
    by (simp add: spentOn_def utcDateKey_def DAILY_LIMIT_CENTS_def)
  have a: "fst (trySpend 0 ''u1'' 300 Map.empty) = True
      \<and> spentOn (utcDateKey 0) ''u1'' (snd (trySpend 0 ''u1'' 300 Map.empty))
          = spentOn (utcDateKey 0) ''u1'' Map.empty + 300"
    using C2_trySpend [of 0 "''u1''" Map.empty 300 "[]" 0] h1 by blast
  have b: "trySpend 432000000 ''u1'' 200 [''u1'' \<mapsto> [5 \<mapsto> 400, 0 \<mapsto> 100]]
       = (False, [''u1'' \<mapsto> [5 \<mapsto> 400]])"
    using C2_trySpend [of 432000000 "''u1''" "[''u1'' \<mapsto> [5 \<mapsto> 400, 0 \<mapsto> 100]]" 200 "[]" 0] h2
    unfolding e by blast
  have c: "spentOn 0 ''u1'' (snd (trySpendAll ''u1'' [(0, 300), (1, 300), (2, 200)] Map.empty))
        = spentOn 0 ''u1'' Map.empty
          + sum_list (accepted [(0, 300), (1, 300), (2, 200)]
              (fst (trySpendAll ''u1'' [(0, 300), (1, 300), (2, 200)] Map.empty)))"
    using C2_trySpend [of 0 "''u1''" Map.empty 0 "[(0, 300), (1, 300), (2, 200)]" 0] h3 by blast
  from a have a': "fst (trySpend 0 ''u1'' 300 Map.empty) = True"
    "spentOn 0 ''u1'' (snd (trySpend 0 ''u1'' 300 Map.empty)) = 300"
    by (simp_all add: utcDateKey_def spentOn_def)
  from c have c': "spentOn 0 ''u1'' (snd (trySpendAll ''u1'' [(0, 300), (1, 300), (2, 200)] Map.empty)) = 500"
    unfolding oks by (simp add: spentOn_def)
  from a' b oks c' show ?thesis by blast
qed

subsection \<open>Intent classifier\<close>

lemma account_pattern_empty: "regexTest True ACCOUNT_WRITE_PATTERN [] = False"
  by code_simp

lemma verb_pattern_empty: "regexTest True WRITE_ACTION_VERB_PATTERN [] = False"
  by code_simp

text \<open>
  C8: \<open>classifyMessageIntent\<close> answers WRITE when the trimmed text matches the
  account-scoped pattern; otherwise READ when it matches the question pattern; otherwise
  WRITE exactly when it has both an action verb and a monetary reference; otherwise READ,
  and READ on the empty message.
\<close>

theorem C8_classify:
  "classifyMessageIntent message =
     (if regexTest True ACCOUNT_WRITE_PATTERN (trimString message) then WRITE
      else if regexTest True QUESTION_PATTERN (trimString message) then READ
      else if regexTest True WRITE_ACTION_VERB_PATTERN (trimString message)
              \<and> regexTest True MONEY_REFERENCE_PATTERN (trimString message) then WRITE
      else READ)
   \<and> classifyMessageIntent [] = READ"
proof
  show "classifyMessageIntent message =
     (if regexTest True ACCOUNT_WRITE_PATTERN (trimString message) then WRITE
      else if regexTest True QUESTION_PATTERN (trimString message) then READ
      else if regexTest True WRITE_ACTION_VERB_PATTERN (trimString message)
              \<and> regexTest True MONEY_REFERENCE_PATTERN (trimString message) then WRITE
      else READ)"
  proof (cases "trimString message = []")
    case True
    then show ?thesis
      by (simp add: classifyMessageIntent_def account_pattern_empty verb_pattern_empty)
  next
    case False
    then show ?thesis
      by (simp add: classifyMessageIntent_def Let_def)
  qed
  show "classifyMessageIntent [] = READ"
    by (simp add: classifyMessageIntent_def trimString_def)
qed

theorem C8_classify_witness:
  "classifyMessageIntent ''what is my balance?'' = WRITE
   \<and> classifyMessageIntent ''can i buy $5'' = READ
   \<and> classifyMessageIntent ''buy $5 of btc'' = WRITE
   \<and> classifyMessageIntent ''buy btc'' = READ
   \<and> classifyMessageIntent ''   '' = READ"
proof -
  have a: "regexTest True ACCOUNT_WRITE_PATTERN (trimString ''what is my balance?'')"
    by code_simp
  have b: "\<not> regexTest True ACCOUNT_WRITE_PATTERN (trimString ''can i buy $5'')"
    "regexTest True QUESTION_PATTERN (trimString ''can i buy $5'')"
    by code_simp+
  have c: "\<not> regexTest True ACCOUNT_WRITE_PATTERN (trimString ''buy $5 of btc'')"
    "\<not> regexTest True QUESTION_PATTERN (trimString ''buy $5 of btc'')"
    "regexTest True WRITE_ACTION_VERB_PATTERN (trimString ''buy $5 of btc'')"
    "regexTest True MONEY_REFERENCE_PATTERN (trimString ''buy $5 of btc'')"
    by code_simp+
  have d: "\<not> regexTest True ACCOUNT_WRITE_PATTERN (trimString ''buy btc'')"
    "\<not> regexTest True QUESTION_PATTERN (trimString ''buy btc'')"
    "\<not> regexTest True MONEY_REFERENCE_PATTERN (trimString ''buy btc'')"
    by code_simp+
  have e: "\<not> regexTest True ACCOUNT_WRITE_PATTERN (trimString ''   '')"
    "\<not> regexTest True QUESTION_PATTERN (trimString ''   '')"
    "\<not> regexTest True WRITE_ACTION_VERB_PATTERN (trimString ''   '')"
    by code_simp+
  show ?thesis
    using C8_classify [of "''what is my balance?''"] C8_classify [of "''can i buy $5''"]
      C8_classify [of "''buy $5 of btc''"] C8_classify [of "''buy btc''"]
      C8_classify [of "''   ''"]
    by (simp only: a b c d e if_True if_False simp_thms)
qed

subsection \<open>Frame lemmas of the router\<close>

lemma spendGate_sell: "spendGate env u SELL amount w = (None, w)"
  by (simp add: spendGate_def)

lemma spendGate_pending: "pendingTrades (snd (spendGate env u act amount w)) = pendingTrades w"
  by (simp add: spendGate_def callCanSpend_def callGetRemainingToday_def split_beta Let_def)

lemma confirmTrade_ledger:
  "spendLedger (snd (confirmTrade env u intent act chosen w)) = spendLedger w"
  "ledgerCalls (snd (confirmTrade env u intent act chosen w)) = ledgerCalls w"
  "placedTrades (snd (confirmTrade env u intent act chosen w)) = placedTrades w"
  by (simp_all add: confirmTrade_def storePendingTrade_def Let_def split_beta
      split: attempt.splits ValidationResult.splits option.splits sum.splits)

lemma confirmTrade_pending_other:
  "cid \<noteq> re_uuid env \<Longrightarrow>
   pendingTrades (snd (confirmTrade env u intent act chosen w)) cid = pendingTrades w cid"
  by (simp add: confirmTrade_def storePendingTrade_def Let_def split_beta
      split: attempt.splits ValidationResult.splits option.splits sum.splits)

lemma confirmTrade_stored:
  "confirmTrade env u intent act chosen w = (Returned (Confirm cid q oc a d), w') \<Longrightarrow>
   cid = re_uuid env \<and> a = act \<and>
   (\<exists>p. pendingTrades w' cid = Some p \<and> ex_action (execute p) = act
        \<and> expiresAtMs p = re_storedAt env + 300000
        \<and> ex_discordUserId (execute p) = u
        \<and> ex_amountCentsNum (execute p) = amountCents intent)"
  by (auto simp: confirmTrade_def storePendingTrade_def Let_def split_beta
      split: attempt.splits ValidationResult.splits option.splits sum.splits)

lemma confirmTrade_ledger_indep:
  "fst (confirmTrade env u intent act chosen (w\<lparr>spendLedger := L\<rparr>))
     = fst (confirmTrade env u intent act chosen w)"
  by (simp add: confirmTrade_def storePendingTrade_def Let_def split_beta
      split: attempt.splits ValidationResult.splits option.splits sum.splits)

lemma fallbackPlan_action:
  "fallbackPlan env message u = PlanTrade intent act m \<Longrightarrow>
   act = (if regexTest False sellPattern (toLowerCase (trimString message)) then SELL else BUY)
   \<and> action intent = Some act \<and> userId intent = u \<and> marketId intent = m_id m"
  unfolding fallbackPlan_def Let_def
  by (auto split: if_splits option.splits attempt.splits prod.splits)

lemma fallback_pending_other:
  "cid \<noteq> re_uuid env \<Longrightarrow>
   pendingTrades (snd (tryDeterministicWriteFallback env message u w)) cid = pendingTrades w cid"
  using spendGate_pending [of env u] confirmTrade_pending_other [of cid env u]
  by (auto simp: tryDeterministicWriteFallback_def
      split: FallbackPlan.splits attempt.splits option.splits prod.splits)
    (metis snd_conv)+

lemma fallback_null_frame:
  "fst (tryDeterministicWriteFallback env message u w) = Returned None \<Longrightarrow>
   snd (tryDeterministicWriteFallback env message u w) = w"
  by (auto simp: tryDeterministicWriteFallback_def
      split: FallbackPlan.splits attempt.splits option.splits prod.splits if_splits)

lemma get_balance_pending:
  "pendingTrades (snd (handleWrite_get_balance env message u raw w)) = pendingTrades w"
  by (simp add: handleWrite_get_balance_def callGetSpentToday_def callGetRemainingToday_def
      Let_def split_beta split: attempt.splits)

lemma get_trade_history_frame: "snd (handleWrite_get_trade_history env u w) = w"
  by (simp add: handleWrite_get_trade_history_def Let_def split: attempt.splits option.splits)

lemma place_bet_pending_other:
  "cid \<noteq> re_uuid env \<Longrightarrow>
   pendingTrades (snd (handleWrite_place_bet env message u b w)) cid = pendingTrades w cid"
  using spendGate_pending [of env u] confirmTrade_pending_other [of cid env u]
  by (auto simp: handleWrite_place_bet_def Let_def
      split: attempt.splits option.splits prod.splits)
    (metis snd_conv)+

lemma handleWrite_pending_other:
  "cid \<noteq> re_uuid env \<Longrightarrow>
   pendingTrades (snd (handleWrite env message u w)) cid = pendingTrades w cid"
  using fallback_pending_other [of cid env message u w]
    place_bet_pending_other [of cid env message u _ w]
  by (auto simp: handleWrite_def get_balance_pending get_trade_history_frame
      split: option.splits AgentOutput.splits attempt.splits prod.splits)

lemma routeMessage_pending_other:
  "cid \<noteq> re_uuid env \<Longrightarrow>
   pendingTrades (snd (routeMessage env message u w)) cid = pendingTrades w cid"
  using handleWrite_pending_other [of cid env message u w]
  by (auto simp: routeMessage_def handleRead_def split: attempt.splits prod.splits if_splits)

lemma execute_absent: "pendingTrades w cid = None \<Longrightarrow> executePendingTrade env cid w = (None, w)"
  by (simp add: executePendingTrade_def)

lemma cancel_absent: "pendingTrades w cid = None \<Longrightarrow> cancelPendingTrade cid w = (False, w)"
  by (simp add: cancelPendingTrade_def)

lemma runExecutor_pending: "pendingTrades (snd (runExecutor env ex w)) = pendingTrades w"
  by (simp add: runExecutor_def callRecordSpend_def Let_def split: TradeResult.splits)

lemma execute_stays_absent:
  "pendingTrades w cid = None \<Longrightarrow> pendingTrades (snd (executePendingTrade env other w)) cid = None"
  by (simp add: executePendingTrade_def Let_def split_beta runExecutor_pending
      split: option.splits)

lemma execute_consumes: "pendingTrades (snd (executePendingTrade env cid w)) cid = None"
  by (simp add: executePendingTrade_def Let_def split_beta runExecutor_pending
      split: option.splits)

lemma cancel_stays_absent:
  "pendingTrades w cid = None \<Longrightarrow> pendingTrades (snd (cancelPendingTrade other w)) cid = None"
  by (simp add: cancelPendingTrade_def)

lemma cancel_consumes: "pendingTrades (snd (cancelPendingTrade cid w)) cid = None"
  by (simp add: cancelPendingTrade_def)

lemma purge_stays_absent:
  "pendingTrades w cid = None \<Longrightarrow> pendingTrades (purgeExpired now w) cid = None"
  by (simp add: purgeExpired_def)

lemma applyOp_stays_absent:
  "pendingTrades w cid = None \<Longrightarrow> cid \<notin> set (drawnIds [op]) \<Longrightarrow>
   pendingTrades (applyOp op w) cid = None"
  by (cases op)
    (simp_all add: routeMessage_pending_other execute_stays_absent cancel_stays_absent
      purge_stays_absent)

lemma drawnIds_Cons: "set (drawnIds (op # ops)) = set (drawnIds [op]) \<union> set (drawnIds ops)"
  by (cases op) simp_all

lemma runOps_stays_absent:
  "pendingTrades w cid = None \<Longrightarrow> cid \<notin> set (drawnIds ops) \<Longrightarrow>
   pendingTrades (runOps ops w) cid = None"
proof (induction ops arbitrary: w)
  case Nil
  then show ?case by simp
next
  case (Cons op ops)
  from Cons.prems(2) have a: "cid \<notin> set (drawnIds [op])" and b: "cid \<notin> set (drawnIds ops)"
    by (simp_all add: drawnIds_Cons [of op ops])
  from Cons.prems(1) a have "pendingTrades (applyOp op w) cid = None"
    by (rule applyOp_stays_absent)
  from Cons.IH [OF this b] show ?case by simp
qed

lemma stored_entry:
  "pendingTrades (snd (storePendingTrade now cid ex w)) cid
     = Some \<lparr> execute = ex, expiresAtMs = now + 300000 \<rparr>"
  by (simp add: storePendingTrade_def)

lemma execute_live:
  "pendingTrades w cid = Some p \<Longrightarrow> \<not> expiresAtMs p < ee_clock env \<Longrightarrow>
   executePendingTrade env cid w =
     (Some (fst (runExecutor env (execute p) (w\<lparr> pendingTrades := (pendingTrades w)(cid := None) \<rparr>))),
      snd (runExecutor env (execute p) (w\<lparr> pendingTrades := (pendingTrades w)(cid := None) \<rparr>)))"
  by (simp add: executePendingTrade_def Let_def split_beta)

lemma execute_expired:
  "pendingTrades w cid = Some p \<Longrightarrow> expiresAtMs p < ee_clock env \<Longrightarrow>
   executePendingTrade env cid w = (None, w\<lparr> pendingTrades := (pendingTrades w)(cid := None) \<rparr>)"
  by (simp add: executePendingTrade_def Let_def)

lemma execute_entry:
  "pendingTrades (snd (executePendingTrade env other w)) cid = None
   \<or> pendingTrades (snd (executePendingTrade env other w)) cid = pendingTrades w cid"
  by (simp add: executePendingTrade_def Let_def split_beta runExecutor_pending
      split: option.splits)

lemma cancel_entry:
  "pendingTrades (snd (cancelPendingTrade other w)) cid = None
   \<or> pendingTrades (snd (cancelPendingTrade other w)) cid = pendingTrades w cid"
  by (simp add: cancelPendingTrade_def)

lemma purge_entry:
  "pendingTrades (purgeExpired now w) cid = None
   \<or> pendingTrades (purgeExpired now w) cid = pendingTrades w cid"
  by (simp add: purgeExpired_def split: option.splits)

lemma applyOp_entry:
  "cid \<notin> set (drawnIds [op]) \<Longrightarrow>
   pendingTrades (applyOp op w) cid = None \<or> pendingTrades (applyOp op w) cid = pendingTrades w cid"
  by (cases op) (simp_all add: routeMessage_pending_other execute_entry cancel_entry purge_entry)

lemma runOps_entry:
  "cid \<notin> set (drawnIds ops) \<Longrightarrow>
   pendingTrades (runOps ops w) cid = None \<or> pendingTrades (runOps ops w) cid = pendingTrades w cid"
proof (induction ops arbitrary: w)
  case Nil
  then show ?case by simp
next
  case (Cons op ops)
  from Cons.prems have a: "cid \<notin> set (drawnIds [op])" and b: "cid \<notin> set (drawnIds ops)"
    by (simp_all add: drawnIds_Cons [of op ops])
  from Cons.IH [OF b, of "applyOp op w"] applyOp_entry [OF a, of w] show ?case
    by auto
qed

subsection \<open>Confirmation registry\<close>

text \<open>
  C3: at most one claim of a confirmation id succeeds. After an \<open>executePendingTrade\<close>
  that returned a result, or a \<open>cancelPendingTrade\<close> that returned true, every later
  execute of the id returns null and every later cancel returns false, whatever
  operations run in between, as long as \<open>crypto.randomUUID\<close> does not draw the id again;
  for an id never stored both return null and false.
\<close>

theorem C3_single_claim:
  assumes "cid \<notin> set (drawnIds ops)"
  shows "(fst (executePendingTrade env cid w) \<noteq> None \<longrightarrow>
            fst (executePendingTrade env' cid
                  (runOps ops (snd (executePendingTrade env cid w)))) = None
          \<and> fst (cancelPendingTrade cid
                  (runOps ops (snd (executePendingTrade env cid w)))) = False)
       \<and> (fst (cancelPendingTrade cid w) \<longrightarrow>
            fst (executePendingTrade env' cid
                  (runOps ops (snd (cancelPendingTrade cid w)))) = None
          \<and> fst (cancelPendingTrade cid
                  (runOps ops (snd (cancelPendingTrade cid w)))) = False)
       \<and> fst (executePendingTrade env' cid (runOps ops emptyWorld)) = None
       \<and> fst (cancelPendingTrade cid (runOps ops emptyWorld)) = False"
proof -
  have gone: "pendingTrades (runOps ops w0) cid = None" if "pendingTrades w0 cid = None" for w0
    using that assms by (rule runOps_stays_absent)
  have a: "pendingTrades (runOps ops (snd (executePendingTrade env cid w))) cid = None"
    by (rule gone) (rule execute_consumes)
  have b: "pendingTrades (runOps ops (snd (cancelPendingTrade cid w))) cid = None"
    by (rule gone) (rule cancel_consumes)
  have c: "pendingTrades (runOps ops emptyWorld) cid = None"
    by (rule gone) (simp add: emptyWorld_def)
  show ?thesis
    by (simp add: execute_absent [OF a] cancel_absent [OF a] execute_absent [OF b]
        cancel_absent [OF b] execute_absent [OF c] cancel_absent [OF c])
qed

theorem C3_single_claim_witness:
  "fst (executePendingTrade (exampleExec 1000) ''c1''
         (snd (storePendingTrade 0 ''c1'' (exampleExecutor BUY) emptyWorld))) \<noteq> None
   \<and> fst (executePendingTrade (exampleExec 2000) ''c1''
         (runOps [OpRoute (exampleEnv ''c2'' None) ''buy $5 btc up 5m'' ''u1'', OpPurge 1500]
           (snd (executePendingTrade (exampleExec 1000) ''c1''
             (snd (storePendingTrade 0 ''c1'' (exampleExecutor BUY) emptyWorld)))))) = None
   \<and> fst (cancelPendingTrade ''c1''
         (runOps [OpRoute (exampleEnv ''c2'' None) ''buy $5 btc up 5m'' ''u1'', OpPurge 1500]
           (snd (executePendingTrade (exampleExec 1000) ''c1''
             (snd (storePendingTrade 0 ''c1'' (exampleExecutor BUY) emptyWorld)))))) = False
   \<and> fst (cancelPendingTrade ''c1''
         (runOps [OpRoute (exampleEnv ''c2'' None) ''buy $5 btc up 5m'' ''u1'', OpPurge 1500]
           emptyWorld)) = False"
proof -
  let ?w = "snd (storePendingTrade 0 ''c1'' (exampleExecutor BUY) emptyWorld)"
  let ?ops = "[OpRoute (exampleEnv ''c2'' None) ''buy $5 btc up 5m'' ''u1'', OpPurge 1500]"
  have fresh: "''c1'' \<notin> set (drawnIds ?ops)"
    by (simp add: exampleEnv_def)
  have s: "pendingTrades ?w ''c1'' = Some \<lparr> execute = exampleExecutor BUY, expiresAtMs = 300000 \<rparr>"
    using stored_entry [of 0 "''c1''" "exampleExecutor BUY" emptyWorld] by simp
  have first: "fst (executePendingTrade (exampleExec 1000) ''c1'' ?w) \<noteq> None"
    using execute_live [OF s, of "exampleExec 1000"] by (simp add: exampleExec_def)
  from C3_single_claim [OF fresh, of "exampleExec 1000" ?w "exampleExec 2000"] first
  show ?thesis by blast
qed

text \<open>
  C4 as stated fails at the boundary: the expiry check is \<open>expiresAtMs < Date.now()\<close>, so
  an execute made exactly at the expiry time, five minutes after the store, still runs
  the stored continuation and the trader is called.
\<close>

theorem C4_counterexample:
  "fst (storePendingTrade 0 ''c1'' (exampleExecutor BUY) emptyWorld) = ''c1''
   \<and> pendingTrades (snd (storePendingTrade 0 ''c1'' (exampleExecutor BUY) emptyWorld)) ''c1''
       = Some \<lparr> execute = exampleExecutor BUY, expiresAtMs = 300000 \<rparr>
   \<and> fst (executePendingTrade (exampleExec 300000) ''c1''
            (snd (storePendingTrade 0 ''c1'' (exampleExecutor BUY) emptyWorld)))
       = Some (TradeResultMessage (TradeOk ''t1'' 300000) ''Bitcoin up or down?'' YES BUY 500)
   \<and> placedTrades (snd (executePendingTrade (exampleExec 300000) ''c1''
            (snd (storePendingTrade 0 ''c1'' (exampleExecutor BUY) emptyWorld))))
       = [exampleRequest BUY]"
  by (simp add: storePendingTrade_def executePendingTrade_def runExecutor_def
      callRecordSpend_def formatTradeResultMessage_def exampleExec_def exampleExecutor_def
      emptyWorld_def Let_def)

text \<open>
  C4 (amended): for a pending confirmation created by \<open>storePendingTrade\<close>, an
  \<open>executePendingTrade\<close> made strictly after its expiry time returns null and leaves the
  state as it was but for the removed entry: the trader and the ledger are not called.
  This holds after any run of purges, routes, executes and cancels in between that does
  not draw the id again, so whether or not a purge has removed the entry.
\<close>

theorem C4_expired_never_executes:
  assumes "storedAt + 5 * 60 * 1000 < ee_clock env"
    and "cid \<notin> set (drawnIds ops)"
  shows "executePendingTrade env cid (runOps ops (snd (storePendingTrade storedAt cid ex w)))
         = (None,
            (runOps ops (snd (storePendingTrade storedAt cid ex w)))
              \<lparr> pendingTrades :=
                  (pendingTrades (runOps ops (snd (storePendingTrade storedAt cid ex w))))
                    (cid := None) \<rparr>)"
proof -
  let ?w1 = "snd (storePendingTrade storedAt cid ex w)"
  let ?w2 = "runOps ops ?w1"
  from runOps_entry [OF assms(2), of ?w1]
  consider (gone) "pendingTrades ?w2 cid = None"
    | (kept) "pendingTrades ?w2 cid = Some \<lparr> execute = ex, expiresAtMs = storedAt + 300000 \<rparr>"
    by (auto simp: stored_entry)
  then show ?thesis
  proof cases
    case gone
    then have "(pendingTrades ?w2)(cid := None) = pendingTrades ?w2"
      by (simp add: fun_upd_idem)
    with gone show ?thesis
      by (simp add: execute_absent)
  next
    case kept
    from assms(1) have "expiresAtMs \<lparr> execute = ex, expiresAtMs = storedAt + 300000 \<rparr> < ee_clock env"
      by simp
    from execute_expired [OF kept this] show ?thesis .
  qed
qed

theorem C4_expired_never_executes_witness:
  "fst (executePendingTrade (exampleExec 300001) ''c1''
         (runOps [OpPurge 120000, OpPurge 240000]
           (snd (storePendingTrade 0 ''c1'' (exampleExecutor BUY) emptyWorld)))) = None
   \<and> placedTrades (snd (executePendingTrade (exampleExec 300001) ''c1''
         (runOps [OpPurge 120000, OpPurge 240000]
           (snd (storePendingTrade 0 ''c1'' (exampleExecutor BUY) emptyWorld))))) = []
   \<and> fst (executePendingTrade (exampleExec 420000) ''c1''
         (runOps [OpPurge 120000, OpPurge 240000, OpPurge 360000]
           (snd (storePendingTrade 0 ''c1'' (exampleExecutor BUY) emptyWorld)))) = None"
proof -
  have a: "(0::int) + 5 * 60 * 1000 < ee_clock (exampleExec 300001)"
    and b: "(0::int) + 5 * 60 * 1000 < ee_clock (exampleExec 420000)"
    by (simp_all add: exampleExec_def)
  have c: "''c1'' \<notin> set (drawnIds [OpPurge 120000, OpPurge 240000])"
    and d: "''c1'' \<notin> set (drawnIds [OpPurge 120000, OpPurge 240000, OpPurge 360000])"
    by simp_all
  let ?w1 = "snd (storePendingTrade 0 ''c1'' (exampleExecutor BUY) emptyWorld)"
  note e1 = C4_expired_never_executes [OF a c, of "exampleExecutor BUY" emptyWorld]
  note e2 = C4_expired_never_executes [OF b d, of "exampleExecutor BUY" emptyWorld]
  have "fst (executePendingTrade (exampleExec 300001) ''c1''
         (runOps [OpPurge 120000, OpPurge 240000] ?w1)) = None"
    by (simp only: e1 fst_conv)
  moreover have "placedTrades (snd (executePendingTrade (exampleExec 300001) ''c1''
         (runOps [OpPurge 120000, OpPurge 240000] ?w1))) = []"
    by (simp only: e1 snd_conv) (simp add: purgeExpired_def storePendingTrade_def emptyWorld_def Let_def)
  moreover have "fst (executePendingTrade (exampleExec 420000) ''c1''
         (runOps [OpPurge 120000, OpPurge 240000, OpPurge 360000] ?w1)) = None"
    by (simp only: e2 fst_conv)
  ultimately show ?thesis by blast
qed

text \<open>
  C10: \<open>cancelPendingTrade\<close> reads no clock. For an id present in the map, expired or
  not, it deletes the entry and returns true; it returns false exactly when the id is
  absent, and then changes nothing.
\<close>

theorem C10_cancel_ignores_expiry:
  "(pendingTrades w cid = Some p \<longrightarrow>
      cancelPendingTrade cid w = (True, w\<lparr> pendingTrades := (pendingTrades w)(cid := None) \<rparr>))
   \<and> (fst (cancelPendingTrade cid w) = False) = (pendingTrades w cid = None)
   \<and> (pendingTrades w cid = None \<longrightarrow> cancelPendingTrade cid w = (False, w))"
  by (simp add: cancelPendingTrade_def)

theorem C10_cancel_ignores_expiry_witness:
  "pendingTrades (snd (storePendingTrade 0 ''c1'' (exampleExecutor BUY) emptyWorld)) ''c1''
     = Some \<lparr> execute = exampleExecutor BUY, expiresAtMs = 300000 \<rparr>
   \<and> fst (executePendingTrade (exampleExec 400000) ''c1''
           (snd (storePendingTrade 0 ''c1'' (exampleExecutor BUY) emptyWorld))) = None
   \<and> fst (cancelPendingTrade ''c1''
           (snd (storePendingTrade 0 ''c1'' (exampleExecutor BUY) emptyWorld))) = True
   \<and> pendingTrades (snd (cancelPendingTrade ''c1''
           (snd (storePendingTrade 0 ''c1'' (exampleExecutor BUY) emptyWorld)))) ''c1'' = None
   \<and> fst (cancelPendingTrade ''c1'' emptyWorld) = False"
proof -
  let ?w = "snd (storePendingTrade 0 ''c1'' (exampleExecutor BUY) emptyWorld)"
  have s: "pendingTrades ?w ''c1'' = Some \<lparr> execute = exampleExecutor BUY, expiresAtMs = 300000 \<rparr>"
    using stored_entry [of 0 "''c1''" "exampleExecutor BUY" emptyWorld] by simp
  have e: "fst (executePendingTrade (exampleExec 400000) ''c1'' ?w) = None"
    using execute_expired [OF s, of "exampleExec 400000"] by (simp add: exampleExec_def)
  have n: "pendingTrades emptyWorld ''c1'' = None" by (simp add: emptyWorld_def)
  from C10_cancel_ignores_expiry
         [of ?w "''c1''" "\<lparr> execute = exampleExecutor BUY, expiresAtMs = 300000 \<rparr>"]
       C10_cancel_ignores_expiry [of emptyWorld "''c1''" undefined] s e n
  show ?thesis by simp
qed

subsection \<open>Sells and the ledger\<close>

lemma place_bet_sell:
  assumes "action b = Some SELL"
  shows "handleWrite_place_bet env message u b w =
           confirmTrade env u
             (b\<lparr> marketId := (case (case tryResolveTimedUpDownMarket env message of
                                       Some (m, slug) \<Rightarrow> Some m
                                     | None \<Rightarrow> (case re_getMarketById env (marketId b) of
                                                  Returned r \<Rightarrow> r | Threw \<Rightarrow> None)) of
                                Some m \<Rightarrow> m_id m | None \<Rightarrow> marketId b) \<rparr>)
             SELL
             (case tryResolveTimedUpDownMarket env message of
                Some (m, slug) \<Rightarrow> Some m
              | None \<Rightarrow> (case re_getMarketById env (marketId b) of
                           Returned r \<Rightarrow> r | Threw \<Rightarrow> None))
             w
         \<or> handleWrite_place_bet env message u b w = (Threw, w)"
  using assms
  by (simp add: handleWrite_place_bet_def spendGate_sell Let_def split: attempt.splits)

lemma place_bet_sell_ledger:
  assumes "action b = Some SELL"
  shows "spendLedger (snd (handleWrite_place_bet env message u b w)) = spendLedger w"
    and "ledgerCalls (snd (handleWrite_place_bet env message u b w)) = ledgerCalls w"
  using place_bet_sell [OF assms, of env message u w]
  by (auto simp: confirmTrade_ledger)

lemma place_bet_sell_indep:
  assumes "action b = Some SELL"
  shows "fst (handleWrite_place_bet env message u b (w\<lparr>spendLedger := L\<rparr>))
           = fst (handleWrite_place_bet env message u b w)"
  using assms
  by (simp add: handleWrite_place_bet_def spendGate_sell Let_def confirmTrade_ledger_indep
      split: attempt.splits)

lemma spendGate_refusal:
  "spendGate env u act amount w = (Some r, w') \<Longrightarrow> \<exists>t. r = Text t"
  by (auto simp: spendGate_def Let_def split_beta split: if_splits)

lemma place_bet_confirm:
  assumes "handleWrite_place_bet env message u b w = (Returned (Confirm cid q oc a d), w')"
  shows "a = (case action b of None \<Rightarrow> BUY | Some x \<Rightarrow> x)
         \<and> (\<exists>p. pendingTrades w' cid = Some p \<and> ex_action (execute p) = a)"
proof -
  let ?act = "case action b of None \<Rightarrow> BUY | Some x \<Rightarrow> x"
  obtain g w1 where g: "spendGate env u ?act (amountCents b) w = (g, w1)"
    by (cases "spendGate env u ?act (amountCents b) w")
  from assms g have none: "g = None"
    using spendGate_refusal [of env u ?act "amountCents b" w _ w1]
    by (cases g) (auto simp: handleWrite_place_bet_def Let_def)
  from assms g none obtain intent chosen
    where "confirmTrade env u intent ?act chosen w1 = (Returned (Confirm cid q oc a d), w')"
    by (auto simp: handleWrite_place_bet_def Let_def split: attempt.splits)
  from confirmTrade_stored [OF this] show ?thesis by auto
qed

lemma fallback_sell_ledger:
  assumes "regexTest False sellPattern (toLowerCase (trimString message))"
  shows "spendLedger (snd (tryDeterministicWriteFallback env message u w)) = spendLedger w"
    and "ledgerCalls (snd (tryDeterministicWriteFallback env message u w)) = ledgerCalls w"
  using assms fallbackPlan_action [of env message u]
  by (auto simp: tryDeterministicWriteFallback_def spendGate_sell confirmTrade_ledger
      split: FallbackPlan.splits attempt.splits prod.splits)
    (metis confirmTrade_ledger snd_conv)+

lemma fallback_sell_indep:
  assumes "regexTest False sellPattern (toLowerCase (trimString message))"
  shows "fst (tryDeterministicWriteFallback env message u (w\<lparr>spendLedger := L\<rparr>))
           = fst (tryDeterministicWriteFallback env message u w)"
proof (cases "fallbackPlan env message u")
  case (PlanTrade intent act m)
  with assms fallbackPlan_action [of env message u intent act m] have act: "act = SELL" by simp
  have "fst (confirmTrade env u intent SELL (Some m) (w\<lparr>spendLedger := L\<rparr>))
          = fst (confirmTrade env u intent SELL (Some m) w)"
    by (rule confirmTrade_ledger_indep)
  then show ?thesis
    by (simp add: tryDeterministicWriteFallback_def PlanTrade act spendGate_sell split_beta
        split: attempt.splits)
qed (simp_all add: tryDeterministicWriteFallback_def split: attempt.splits)

lemma fallback_confirm:
  assumes "tryDeterministicWriteFallback env message u w = (Returned (Some (Confirm cid q oc a d)), w')"
  shows "a = (if regexTest False sellPattern (toLowerCase (trimString message)) then SELL else BUY)
         \<and> (\<exists>p. pendingTrades w' cid = Some p \<and> ex_action (execute p) = a)"
proof (cases "fallbackPlan env message u")
  case (PlanTrade intent act m)
  from fallbackPlan_action [OF PlanTrade]
  have act: "act = (if regexTest False sellPattern (toLowerCase (trimString message)) then SELL else BUY)"
    by simp
  obtain g w1 where g: "spendGate env u act (amountCents intent) w = (g, w1)"
    by (cases "spendGate env u act (amountCents intent) w")
  from assms PlanTrade g have none: "g = None"
    using spendGate_refusal [of env u act "amountCents intent" w _ w1]
    by (cases g) (auto simp: tryDeterministicWriteFallback_def)
  from assms PlanTrade g none
  have "confirmTrade env u intent act (Some m) w1 = (Returned (Confirm cid q oc a d), w')"
    by (auto simp: tryDeterministicWriteFallback_def split: prod.splits attempt.splits)
  from confirmTrade_stored [OF this] act show ?thesis by auto
qed (use assms in \<open>auto simp: tryDeterministicWriteFallback_def split: attempt.splits if_splits\<close>)

lemma runExecutor_sell:
  "ex_action ex = SELL \<Longrightarrow>
   spendLedger (snd (runExecutor env ex w)) = spendLedger w
   \<and> ledgerCalls (snd (runExecutor env ex w)) = ledgerCalls w"
  by (simp add: runExecutor_def Let_def split: TradeResult.splits)

lemma execute_sell:
  "pendingTrades w cid = Some p \<Longrightarrow> ex_action (execute p) = SELL \<Longrightarrow>
   spendLedger (snd (executePendingTrade env cid w)) = spendLedger w
   \<and> ledgerCalls (snd (executePendingTrade env cid w)) = ledgerCalls w"
  using runExecutor_sell [of "execute p" env]
  by (simp add: executePendingTrade_def Let_def split_beta)

lemma handleWrite_sell:
  assumes "isSellRequest env message u"
  shows "spendLedger (snd (handleWrite env message u w)) = spendLedger w"
    and "ledgerCalls (snd (handleWrite env message u w)) = ledgerCalls w"
    and "fst (handleWrite env message u (w\<lparr>spendLedger := L\<rparr>)) = fst (handleWrite env message u w)"
proof -
  show "spendLedger (snd (handleWrite env message u w)) = spendLedger w"
    using assms fallback_sell_ledger(1) [where message = message and env = env and u = u and w = w]
      place_bet_sell_ledger(1) [where env = env and message = message and u = u and w = w]
    by (auto simp: isSellRequest_def handleWrite_def
        split: option.splits AgentOutput.splits attempt.splits prod.splits)
  show "ledgerCalls (snd (handleWrite env message u w)) = ledgerCalls w"
    using assms fallback_sell_ledger(2) [where message = message and env = env and u = u and w = w]
      place_bet_sell_ledger(2) [where env = env and message = message and u = u and w = w]
    by (auto simp: isSellRequest_def handleWrite_def
        split: option.splits AgentOutput.splits attempt.splits prod.splits)
  show "fst (handleWrite env message u (w\<lparr>spendLedger := L\<rparr>)) = fst (handleWrite env message u w)"
  proof (cases "parseIntent env message u")
    case None
    with assms have s: "regexTest False sellPattern (toLowerCase (trimString message))"
      by (simp add: isSellRequest_def)
    from fallback_sell_indep [OF s, where env = env and u = u and w = w and L = L] show ?thesis
      by (cases "tryDeterministicWriteFallback env message u w";
          cases "tryDeterministicWriteFallback env message u (w\<lparr>spendLedger := L\<rparr>)")
        (auto simp: handleWrite_def None split: attempt.splits option.splits)
  next
    case (Some ao)
    with assms obtain b where ao: "ao = PlaceBet b" and "action b = Some SELL"
      by (cases ao) (auto simp: isSellRequest_def)
    then show ?thesis
      by (simp add: handleWrite_def Some place_bet_sell_indep)
  qed
qed

lemma handleWrite_confirm:
  assumes "handleWrite env message u w = (Returned (Confirm cid q oc a d), w')"
    and "isSellRequest env message u"
  shows "a = SELL \<and> (\<exists>p. pendingTrades w' cid = Some p \<and> ex_action (execute p) = SELL)"
proof (cases "parseIntent env message u")
  case None
  with assms(2) have s: "regexTest False sellPattern (toLowerCase (trimString message))"
    by (simp add: isSellRequest_def)
  from assms(1) None
  have "tryDeterministicWriteFallback env message u w = (Returned (Some (Confirm cid q oc a d)), w')"
    by (auto simp: handleWrite_def split: prod.splits attempt.splits option.splits)
  from fallback_confirm [OF this] s show ?thesis by auto
next
  case (Some ao)
  with assms(2) obtain b where ao: "ao = PlaceBet b" and sell: "action b = Some SELL"
    by (cases ao) (auto simp: isSellRequest_def)
  from assms(1) Some ao
  have "handleWrite_place_bet env message u b w = (Returned (Confirm cid q oc a d), w')"
    by (simp add: handleWrite_def)
  from place_bet_confirm [OF this] sell show ?thesis by auto
qed

subsection \<open>Evaluated routes\<close>

lemma msg_buy_det: "isDeterministicWriteMessage ''buy $5 yes m1''"
  by code_simp

lemma msg_buy_nonblank: "trimString ''buy $5 yes m1'' = ''buy $5 yes m1''"
  by code_simp

lemma msg_buy_timed: "tryResolveTimedUpDownMarket env ''buy $5 yes m1'' = None"
  by (simp add: tryResolveTimedUpDownMarket_def Let_def) code_simp

lemma fixed_500: "toFixed2 500 = ''5.00''"
  by (simp add: toFixed2_def natToDigits.simps digitChar_def)

lemma route_parsed_buy:
  assumes "spentOn 0 ''u1'' (spendLedger w) + 500 \<le> DAILY_LIMIT_CENTS"
  shows "routeMessage (exampleEnv cid (Some (exampleBet BUY))) ''buy $5 yes m1'' ''u1'' w
    = (Returned (Confirm cid ''Bitcoin up or down?'' YES BUY ''5.00''),
       w\<lparr> spendLedger := snd (memGetSpent 0 ''u1'' (spendLedger w)),
          ledgerCalls := ledgerCalls w @ [CanSpend ''u1'' 500],
          builtRequests := builtRequests w @ [exampleRequest BUY],
          pendingTrades := (pendingTrades w)
            (cid \<mapsto> \<lparr> execute = exampleExecutor BUY, expiresAtMs = 300000 \<rparr>) \<rparr>)"
  using assms memGetSpent_fst [of 0 "''u1''" "spendLedger w"]
  by (simp add: routeMessage_def msg_buy_det handleWrite_def parseIntent_def msg_buy_nonblank
      exampleEnv_def exampleBet_def handleWrite_place_bet_def spendGate_def isOwnerExempt_def
      OWNER_DISCORD_ID_def callCanSpend_def canSpend_def getSpentToday_def split_beta
      msg_buy_timed confirmTrade_def exampleContext_def validateAgentOutput_def
      HOURLY_LIMIT_CENTS_def exampleMarket_def buildTradeRequest_def key_shape
      IDEMPOTENCY_WINDOW_MS_def numberToString_def natToDigits.simps digitChar_def
      storePendingTrade_def fixed_500 exampleRequest_def exampleExecutor_def utcDateKey_def
      Let_def)

lemma spentOn_after_read:
  "d = utcDateKey now \<Longrightarrow>
   spentOn d u' (snd (memGetSpent now u ledger)) = spentOn d u' ledger"
  by (simp add: memGetSpent_snd spentOn_evicted)

lemma execute_example_buy:
  assumes "pendingTrades w cid = Some \<lparr> execute = exampleExecutor BUY, expiresAtMs = 300000 \<rparr>"
    and "now \<le> 300000"
  shows "snd (executePendingTrade (exampleExec now) cid w)
    = w\<lparr> pendingTrades := (pendingTrades w)(cid := None),
         placedTrades := placedTrades w @ [exampleRequest BUY],
         spendLedger := recordSpend now ''u1'' 500 (spendLedger w),
         ledgerCalls := ledgerCalls w @ [RecordSpend ''u1'' 500] \<rparr>"
  using assms
  by (simp add: executePendingTrade_def runExecutor_def callRecordSpend_def exampleExec_def
      exampleExecutor_def Let_def)

lemma msg_fb_buy_det: "isDeterministicWriteMessage ''buy $5 btc up 5m''"
  by code_simp

lemma msg_fb_sell_det: "isDeterministicWriteMessage ''sell $5 btc up 5m''"
  by code_simp

lemma msg_fb_sell_pattern:
  "regexTest False sellPattern (toLowerCase (trimString ''sell $5 btc up 5m''))"
  by code_simp

lemma msg_fb_buy_plan:
  "fallbackPlan (exampleEnv ''c1'' None) ''buy $5 btc up 5m'' ''u1''
     = PlanTrade \<lparr> userId = ''u1'', marketId = ''m1'', outcome = YES, action = Some BUY,
                   amountCents = 500, rawText = Some ''buy $5 btc up 5m'' \<rparr> BUY exampleMarket"
  by code_simp

lemma msg_fb_sell_plan:
  "fallbackPlan (exampleEnv ''c1'' None) ''sell $5 btc up 5m'' ''u1''
     = PlanTrade \<lparr> userId = ''u1'', marketId = ''m1'', outcome = YES, action = Some SELL,
                   amountCents = 500, rawText = Some ''sell $5 btc up 5m'' \<rparr> SELL exampleMarket"
  by code_simp

lemma msg_null_det: "isDeterministicWriteMessage ''buy $5''"
  by code_simp

lemma msg_null_plan: "fallbackPlan (exampleEnv ''c1'' None) ''buy $5'' ''u1'' = PlanNull"
  by code_simp

lemma parse_no_keys: "parseIntent (exampleEnv cid None) message u = None"
  by (simp add: parseIntent_def exampleEnv_def)

lemma confirm_example:
  "confirmTrade (exampleEnv ''c1'' None) ''u1''
     \<lparr> userId = ''u1'', marketId = ''m1'', outcome = YES, action = Some act,
       amountCents = 500, rawText = raw \<rparr> act (Some exampleMarket) w
   = (Returned (Confirm ''c1'' ''Bitcoin up or down?'' YES act ''5.00''),
      w\<lparr> builtRequests := builtRequests w @ [exampleRequest act],
         pendingTrades := (pendingTrades w)
           (''c1'' \<mapsto> \<lparr> execute = exampleExecutor act, expiresAtMs = 300000 \<rparr>) \<rparr>)"
  by (simp add: confirmTrade_def exampleEnv_def exampleContext_def validateAgentOutput_def
      HOURLY_LIMIT_CENTS_def exampleMarket_def buildTradeRequest_def key_shape
      IDEMPOTENCY_WINDOW_MS_def numberToString_def natToDigits.simps digitChar_def
      storePendingTrade_def fixed_500 exampleRequest_def exampleExecutor_def Let_def)

text \<open>
  C9: a sell never touches the spend ledger. When the parsed intent is a \<open>place_bet\<close>
  with action SELL, or the parser returned null and the fallback reads a sell, routing
  leaves the ledger as it was and calls none of its functions, the reply does not depend
  on the ledger, and a confirmation it hands out stores a SELL whose execution leaves the
  ledger as it was and calls none of its functions either.
\<close>

theorem C9_sell_never_touches_ledger:
  assumes "isSellRequest env message u"
  shows "spendLedger (snd (routeMessage env message u w)) = spendLedger w
       \<and> ledgerCalls (snd (routeMessage env message u w)) = ledgerCalls w
       \<and> fst (routeMessage env message u (w\<lparr>spendLedger := L\<rparr>)) = fst (routeMessage env message u w)
       \<and> (\<forall>cid q oc a d. fst (routeMessage env message u w) = Returned (Confirm cid q oc a d) \<longrightarrow>
            a = SELL
            \<and> (\<exists>p. pendingTrades (snd (routeMessage env message u w)) cid = Some p
                   \<and> ex_action (execute p) = SELL
                   \<and> (\<forall>xenv w2. pendingTrades w2 cid = Some p \<longrightarrow>
                         spendLedger (snd (executePendingTrade xenv cid w2)) = spendLedger w2
                         \<and> ledgerCalls (snd (executePendingTrade xenv cid w2)) = ledgerCalls w2)))"
proof (intro conjI allI impI)
  show "spendLedger (snd (routeMessage env message u w)) = spendLedger w"
    using handleWrite_sell(1) [OF assms, where w = w]
    by (auto simp: routeMessage_def handleRead_def split: prod.splits attempt.splits)
  show "ledgerCalls (snd (routeMessage env message u w)) = ledgerCalls w"
    using handleWrite_sell(2) [OF assms, where w = w]
    by (auto simp: routeMessage_def handleRead_def split: prod.splits attempt.splits)
  show "fst (routeMessage env message u (w\<lparr>spendLedger := L\<rparr>)) = fst (routeMessage env message u w)"
    using handleWrite_sell(3) [OF assms, where w = w and L = L]
    by (cases "handleWrite env message u w"; cases "handleWrite env message u (w\<lparr>spendLedger := L\<rparr>)")
      (auto simp: routeMessage_def handleRead_def split: attempt.splits)
next
  fix cid q oc a d
  assume c: "fst (routeMessage env message u w) = Returned (Confirm cid q oc a d)"
  obtain r w' where hw: "handleWrite env message u w = (r, w')"
    by (cases "handleWrite env message u w")
  from c hw have r: "r = Returned (Confirm cid q oc a d)"
    and w': "snd (routeMessage env message u w) = w'"
    by (auto simp: routeMessage_def handleRead_def split: attempt.splits if_splits)
  from handleWrite_confirm [OF hw [unfolded r] assms]
  obtain p where a: "a = SELL" and p: "pendingTrades w' cid = Some p" "ex_action (execute p) = SELL"
    by auto
  show "a = SELL" by (rule a)
  show "\<exists>p. pendingTrades (snd (routeMessage env message u w)) cid = Some p
                   \<and> ex_action (execute p) = SELL
                   \<and> (\<forall>xenv w2. pendingTrades w2 cid = Some p \<longrightarrow>
                         spendLedger (snd (executePendingTrade xenv cid w2)) = spendLedger w2
                         \<and> ledgerCalls (snd (executePendingTrade xenv cid w2)) = ledgerCalls w2)"
    unfolding w' using p execute_sell [OF _ p(2)] by blast
qed

theorem C9_sell_never_touches_ledger_witness:
  "isSellRequest (exampleEnv ''c1'' None) ''sell $5 btc up 5m'' ''u1''
   \<and> spentOn 0 ''u1'' (spendLedger (emptyWorld\<lparr> spendLedger := [''u1'' \<mapsto> [0 \<mapsto> 500]] \<rparr>)) = 500
   \<and> fst (routeMessage (exampleEnv ''c1'' None) ''sell $5 btc up 5m'' ''u1''
            (emptyWorld\<lparr> spendLedger := [''u1'' \<mapsto> [0 \<mapsto> 500]] \<rparr>))
       = Returned (Confirm ''c1'' ''Bitcoin up or down?'' YES SELL ''5.00'')
   \<and> spendLedger (snd (routeMessage (exampleEnv ''c1'' None) ''sell $5 btc up 5m'' ''u1''
            (emptyWorld\<lparr> spendLedger := [''u1'' \<mapsto> [0 \<mapsto> 500]] \<rparr>)))
       = [''u1'' \<mapsto> [0 \<mapsto> 500]]
   \<and> ledgerCalls (snd (routeMessage (exampleEnv ''c1'' None) ''sell $5 btc up 5m'' ''u1''
            (emptyWorld\<lparr> spendLedger := [''u1'' \<mapsto> [0 \<mapsto> 500]] \<rparr>))) = []
   \<and> spendLedger (snd (executePendingTrade (exampleExec 1000) ''c1''
        (snd (routeMessage (exampleEnv ''c1'' None) ''sell $5 btc up 5m'' ''u1''
            (emptyWorld\<lparr> spendLedger := [''u1'' \<mapsto> [0 \<mapsto> 500]] \<rparr>)))))
       = [''u1'' \<mapsto> [0 \<mapsto> 500]]"
proof -
  let ?env = "exampleEnv ''c1'' None"
  let ?m = "''sell $5 btc up 5m''"
  let ?w = "emptyWorld\<lparr> spendLedger := [''u1'' \<mapsto> [0 \<mapsto> (500::int)]] \<rparr>"
  have sell: "isSellRequest ?env ?m ''u1''"
    by (simp add: isSellRequest_def parse_no_keys msg_fb_sell_pattern)
  have spent: "spentOn 0 ''u1'' (spendLedger ?w) = 500"
    by (simp add: spentOn_def)
  have res: "fst (routeMessage ?env ?m ''u1'' ?w)
               = Returned (Confirm ''c1'' ''Bitcoin up or down?'' YES SELL ''5.00'')"
    by (simp add: routeMessage_def msg_fb_sell_det handleWrite_def parse_no_keys
        tryDeterministicWriteFallback_def msg_fb_sell_plan spendGate_sell confirm_example)
  note c9 = C9_sell_never_touches_ledger [OF sell, of ?w Map.empty]
  from c9 have led: "spendLedger (snd (routeMessage ?env ?m ''u1'' ?w)) = [''u1'' \<mapsto> [0 \<mapsto> 500]]"
    and calls: "ledgerCalls (snd (routeMessage ?env ?m ''u1'' ?w)) = []"
    by (simp_all add: emptyWorld_def)
  from c9 res obtain p where p: "pendingTrades (snd (routeMessage ?env ?m ''u1'' ?w)) ''c1'' = Some p"
    and ex: "\<forall>xenv w2. pendingTrades w2 ''c1'' = Some p \<longrightarrow>
               spendLedger (snd (executePendingTrade xenv ''c1'' w2)) = spendLedger w2"
    by blast
  from ex p led
  have "spendLedger (snd (executePendingTrade (exampleExec 1000) ''c1''
          (snd (routeMessage ?env ?m ''u1'' ?w)))) = [''u1'' \<mapsto> [0 \<mapsto> 500]]"
    by simp
  with sell spent res led calls show ?thesis by blast
qed

text \<open>
  C1 fails on the code: the daily limit is checked when a message is routed and the spend
  is recorded when its confirmation is executed. A user other than the owner who routes
  two buys of 500 cents before confirming either passes the check twice, and after both
  confirmations their counter for the day stands at 1000 cents, above the ceiling of 500.
\<close>

theorem C1_daily_limit_overrun:
  "\<not> isOwnerExempt ''u1''
   \<and> DAILY_LIMIT_CENTS = 500
   \<and> fst (getSpentToday 2000 ''u1''
        (spendLedger
          (runOps
            [OpRoute (exampleEnv ''c1'' (Some (exampleBet BUY))) ''buy $5 yes m1'' ''u1'',
             OpRoute (exampleEnv ''c2'' (Some (exampleBet BUY))) ''buy $5 yes m1'' ''u1'',
             OpExecute (exampleExec 1000) ''c1'',
             OpExecute (exampleExec 2000) ''c2'']
            emptyWorld))) = 1000"
proof -
  let ?m = "''buy $5 yes m1''"
  let ?e = "\<lambda>cid. exampleEnv cid (Some (exampleBet BUY))"
  let ?entry = "\<lparr> execute = exampleExecutor BUY, expiresAtMs = 300000 \<rparr>"
  define w1 where "w1 = snd (routeMessage (?e ''c1'') ?m ''u1'' emptyWorld)"
  define w2 where "w2 = snd (routeMessage (?e ''c2'') ?m ''u1'' w1)"
  define w3 where "w3 = snd (executePendingTrade (exampleExec 1000) ''c1'' w2)"
  define w4 where "w4 = snd (executePendingTrade (exampleExec 2000) ''c2'' w3)"
  have z: "utcDateKey 0 = 0" "utcDateKey 1000 = 0" "utcDateKey 2000 = 0"
    by (simp_all add: utcDateKey_def)
  have s0: "spentOn 0 ''u1'' (spendLedger emptyWorld) + 500 \<le> DAILY_LIMIT_CENTS"
    by (simp add: spentOn_def emptyWorld_def DAILY_LIMIT_CENTS_def)
  note r1 = route_parsed_buy [OF s0, of "''c1''"]
  have l1: "spentOn 0 ''u1'' (spendLedger w1) = 0"
    unfolding w1_def r1 by (simp add: spentOn_after_read z) (simp add: spentOn_def emptyWorld_def)
  have p1: "pendingTrades w1 ''c1'' = Some ?entry"
    unfolding w1_def r1 by simp
  from l1 have s1: "spentOn 0 ''u1'' (spendLedger w1) + 500 \<le> DAILY_LIMIT_CENTS"
    by (simp add: DAILY_LIMIT_CENTS_def)
  note r2 = route_parsed_buy [OF s1, of "''c2''"]
  have l2: "spentOn 0 ''u1'' (spendLedger w2) = 0"
    unfolding w2_def r2 using l1 by (simp add: spentOn_after_read z)
  have p2: "pendingTrades w2 ''c1'' = Some ?entry" "pendingTrades w2 ''c2'' = Some ?entry"
    unfolding w2_def r2 using p1 by simp_all
  have c3: "(1000::int) \<le> 300000" by simp
  note x3 = execute_example_buy [OF p2(1) c3]
  have l3: "spentOn 0 ''u1'' (spendLedger w3) = 500"
    unfolding w3_def x3 using l2 by (simp add: recordSpend_def spentOn_memRecordSpend z)
  have p3: "pendingTrades w3 ''c2'' = Some ?entry"
    unfolding w3_def x3 using p2(2) by simp
  have c4: "(2000::int) \<le> 300000" by simp
  note x4 = execute_example_buy [OF p3 c4]
  have l4: "spentOn 0 ''u1'' (spendLedger w4) = 1000"
    unfolding w4_def x4 using l3 by (simp add: recordSpend_def spentOn_memRecordSpend z)
  have run: "runOps
            [OpRoute (?e ''c1'') ?m ''u1'', OpRoute (?e ''c2'') ?m ''u1'',
             OpExecute (exampleExec 1000) ''c1'', OpExecute (exampleExec 2000) ''c2'']
            emptyWorld = w4"
    by (simp add: w1_def w2_def w3_def w4_def)
  have "fst (getSpentToday 2000 ''u1'' (spendLedger w4)) = 1000"
    using l4 by (simp add: getSpentToday_def memGetSpent_fst z)
  then show ?thesis
    unfolding run by (simp add: isOwnerExempt_def OWNER_DISCORD_ID_def DAILY_LIMIT_CENTS_def)
qed

text \<open>
  C7 as stated fails: when the parser returns null the router first tries the
  deterministic fallback, and a message the fallback recognises as a trade is validated,
  built into a request and stored as a pending trade.
\<close>

theorem C7_counterexample:
  "parseIntent (exampleEnv ''c1'' None) ''buy $5 btc up 5m'' ''u1'' = None
   \<and> isDeterministicWriteMessage ''buy $5 btc up 5m''
   \<and> fst (routeMessage (exampleEnv ''c1'' None) ''buy $5 btc up 5m'' ''u1'' emptyWorld)
       = Returned (Confirm ''c1'' ''Bitcoin up or down?'' YES BUY ''5.00'')
   \<and> builtRequests (snd (routeMessage (exampleEnv ''c1'' None) ''buy $5 btc up 5m'' ''u1'' emptyWorld))
       = [exampleRequest BUY]
   \<and> pendingTrades (snd (routeMessage (exampleEnv ''c1'' None) ''buy $5 btc up 5m'' ''u1'' emptyWorld))
         ''c1''
       = Some \<lparr> execute = exampleExecutor BUY, expiresAtMs = 300000 \<rparr>"
proof -
  have gate: "spendGate (exampleEnv ''c1'' None) ''u1'' BUY 500 emptyWorld
      = (None, emptyWorld\<lparr> spendLedger := Map.empty, ledgerCalls := [CanSpend ''u1'' 500] \<rparr>)"
    by (simp add: spendGate_def isOwnerExempt_def OWNER_DISCORD_ID_def callCanSpend_def
        canSpend_def getSpentToday_def memGetSpent_def DAILY_LIMIT_CENTS_def emptyWorld_def
        exampleEnv_def Let_def)
  have "routeMessage (exampleEnv ''c1'' None) ''buy $5 btc up 5m'' ''u1'' emptyWorld
      = (Returned (Confirm ''c1'' ''Bitcoin up or down?'' YES BUY ''5.00''),
         emptyWorld\<lparr> spendLedger := Map.empty, ledgerCalls := [CanSpend ''u1'' 500],
           builtRequests := [exampleRequest BUY],
           pendingTrades := [''c1'' \<mapsto> \<lparr> execute = exampleExecutor BUY, expiresAtMs = 300000 \<rparr>] \<rparr>)"
    by (simp add: routeMessage_def msg_fb_buy_det handleWrite_def parse_no_keys
        tryDeterministicWriteFallback_def msg_fb_buy_plan gate confirm_example)
      (simp add: emptyWorld_def)
  then show ?thesis
    by (simp add: parse_no_keys msg_fb_buy_det emptyWorld_def)
qed

text \<open>
  C7 (amended): when the parser returns null for a message routed to the WRITE pipeline
  and the deterministic fallback returns null as well, \<open>routeMessage\<close> returns the generic
  parse-failure reply and the state is unchanged: no request is built, no pending trade
  is stored and nothing is executed.
\<close>

theorem C7_parse_failure_fails_closed:
  assumes "parseIntent env message u = None"
    and "fst (tryDeterministicWriteFallback env message u w) = Returned None"
    and "isDeterministicWriteMessage message \<or> classifyMessageIntent message = WRITE"
  shows "routeMessage env message u w = (Returned (Text (Fixed parseFailureReply)), w)"
proof -
  from fallback_null_frame [OF assms(2)] assms(2)
  have "tryDeterministicWriteFallback env message u w = (Returned None, w)"
    by (simp add: prod_eq_iff)
  with assms(1) have "handleWrite env message u w = (Returned (Text (Fixed parseFailureReply)), w)"
    by (simp add: handleWrite_def)
  with assms(3) show ?thesis
    by (auto simp: routeMessage_def)
qed

theorem C7_parse_failure_fails_closed_witness:
  "routeMessage (exampleEnv ''c1'' None) ''buy $5'' ''u1'' emptyWorld
     = (Returned (Text (Fixed
          ''I could not confidently parse that request. Please try again with a clearer command.'')),
        emptyWorld)"
proof -
  have a: "parseIntent (exampleEnv ''c1'' None) ''buy $5'' ''u1'' = None"
    by (rule parse_no_keys)
  have b: "fst (tryDeterministicWriteFallback (exampleEnv ''c1'' None) ''buy $5'' ''u1'' emptyWorld)
             = Returned None"
    by (simp add: tryDeterministicWriteFallback_def msg_null_plan)
  have c: "isDeterministicWriteMessage ''buy $5'' \<or> classifyMessageIntent ''buy $5'' = WRITE"
    by (simp add: msg_null_det)
  from C7_parse_failure_fails_closed [OF a b c] show ?thesis
    by (simp add: parseFailureReply_def)
qed

end
